theory Spec2Isabelle
  imports Complex_Main "HOL-Library.Sublist" "HOL-Library.Multiset"
begin

section \<open>Shared types (GameplayMessageTypes2.h)\<close>

text \<open>
  Object and struct-type pointers are identities; \<open>0\<close> is the null pointer. A
  \<open>TWeakObjectPtr<UObject>\<close> is \<open>None\<close> when it is explicitly null.
\<close>

type_synonym ptr = nat

text \<open>
  Modelled from the spec: \<open>FGameplayTag\<close> is an engine type that is not part of the
  repository. The spec gives its contract (a hierarchical, segment-structured label with
  exact equality and is-descendant-of-or-equal), and the header comments of
  \<open>EGameplayMessageMatch\<close> give the same examples. A tag is the list of its segments:
  \<open>A.B.C\<close> is \<open>[''A'', ''B'', ''C'']\<close>.
\<close>

type_synonym FGameplayTag = "string list"

definition MatchesTagExact :: "FGameplayTag \<Rightarrow> FGameplayTag \<Rightarrow> bool" where
  "MatchesTagExact this TagToCheck = (this = TagToCheck)"

definition MatchesTag :: "FGameplayTag \<Rightarrow> FGameplayTag \<Rightarrow> bool" where
  "MatchesTag this TagToCheck = prefix TagToCheck this"

datatype EGameplayMessageMatch = ExactMatch | PartialMatch

record FGameplayMessageBroadcastResult =
  bCancelled :: bool
  bInterrupted :: bool

definition Reset :: "FGameplayMessageBroadcastResult \<Rightarrow> FGameplayMessageBroadcastResult" where
  "Reset r = r\<lparr>bCancelled := False, bInterrupted := False\<rparr>"

text \<open>
  \<open>int32\<close> values are integers in the range of the type. \<open>++\<close> on the handle counters is
  the only arithmetic done on them; its wrap-around is written out.
\<close>

definition int32_incr :: "int \<Rightarrow> int" where
  "int32_incr x = (if x = 2147483647 then - 2147483648 else x + 1)"

section \<open>The global router (GameplayMessageSubsystem)\<close>

record FGameplayMessageListenerHandle =
  Subsystem :: "ptr option"
  StructType :: ptr
  ID :: int

definition Handle_IsValid :: "FGameplayMessageListenerHandle \<Rightarrow> bool" where
  "Handle_IsValid h = (ID h \<noteq> 0)"

text \<open>The default constructor leaves \<open>StructType\<close> without an initialiser.\<close>

definition DefaultHandle :: "ptr \<Rightarrow> FGameplayMessageListenerHandle" where
  "DefaultHandle st = \<lparr>Subsystem = None, StructType = st, ID = 0\<rparr>"

text \<open>
  \<open>ReceivedCallback\<close> is the index of the callback in the environment of callbacks that
  the dispatcher is given (a callback may change the router it is stored in).
\<close>

record FGameplayMessageListenerData =
  ReceivedCallback :: nat
  HandleID :: int
  MatchType :: EGameplayMessageMatch
  ListenerStructType :: ptr
  Channel :: FGameplayTag
  Priority :: int
  TargetObject :: "ptr option"

text \<open>\<open>ListHandleID\<close> is the field \<open>HandleID\<close> of \<open>FChannelListenerList\<close>.\<close>

record FChannelListenerList =
  Listeners :: "FGameplayMessageListenerData list"
  ListHandleID :: int

text \<open>\<open>Log\<close> collects the warnings written with \<open>UE_LOG\<close>, oldest first.\<close>

record UGameplayMessageSubsystem =
  ListenerMap :: "ptr \<rightharpoonup> FChannelListenerList"
  BroadcastResultCache :: FGameplayMessageBroadcastResult
  Log :: "string list"

definition InitialSubsystem :: UGameplayMessageSubsystem where
  "InitialSubsystem =
     \<lparr>ListenerMap = Map.empty,
      BroadcastResultCache = \<lparr>bCancelled = False, bInterrupted = False\<rparr>,
      Log = []\<rparr>"

type_synonym Callbacks = "nat \<Rightarrow> FGameplayTag \<Rightarrow> ptr \<Rightarrow> UGameplayMessageSubsystem \<Rightarrow> UGameplayMessageSubsystem"

subsection \<open>Registration\<close>

text \<open>
  The loop \<open>for (i = Num - 1; i >= 0; --i)\<close> of \<open>RegisterListenerInternal\<close>:
  \<open>ScanIndex p L k Index\<close> has still to look at the indices below \<open>k\<close>.
\<close>

fun ScanIndex :: "int \<Rightarrow> int list \<Rightarrow> nat \<Rightarrow> nat \<Rightarrow> nat" where
  "ScanIndex p ps 0 Index = Index"
| "ScanIndex p ps (Suc i) Index = (if ps ! i > p then ScanIndex p ps i i else Index)"

definition FindInsertIndex :: "int \<Rightarrow> int list \<Rightarrow> nat" where
  "FindInsertIndex p ps = ScanIndex p ps (length ps) (length ps)"

definition Insert :: "'a \<Rightarrow> nat \<Rightarrow> 'a list \<Rightarrow> 'a list" where
  "Insert x Index xs = take Index xs @ x # drop Index xs"

definition FindOrAdd :: "(ptr \<rightharpoonup> FChannelListenerList) \<Rightarrow> ptr \<Rightarrow> FChannelListenerList" where
  "FindOrAdd m k = (case m k of None \<Rightarrow> \<lparr>Listeners = [], ListHandleID = 0\<rparr> | Some l \<Rightarrow> l)"

definition RegisterListenerInternal ::
  "ptr \<Rightarrow> FGameplayTag \<Rightarrow> nat \<Rightarrow> ptr \<Rightarrow> EGameplayMessageMatch \<Rightarrow> int \<Rightarrow> ptr option \<Rightarrow>
   UGameplayMessageSubsystem \<Rightarrow> FGameplayMessageListenerHandle \<times> UGameplayMessageSubsystem" where
  "RegisterListenerInternal this Channel' Callback StructType' MatchType' Priority' TargetObject' s =
     (let List = FindOrAdd (ListenerMap s) StructType';
          Index = FindInsertIndex Priority' (map Priority (Listeners List));
          NewID = int32_incr (ListHandleID List);
          Entry = \<lparr>ReceivedCallback = Callback, HandleID = NewID, MatchType = MatchType',
                   ListenerStructType = StructType', Channel = Channel',
                   Priority = Priority', TargetObject = TargetObject'\<rparr>;
          List' = \<lparr>Listeners = Insert Entry Index (Listeners List), ListHandleID = NewID\<rparr>
      in (\<lparr>Subsystem = Some this, StructType = StructType', ID = NewID\<rparr>,
          s\<lparr>ListenerMap := (ListenerMap s)(StructType' \<mapsto> List')\<rparr>))"

subsection \<open>Unregistration\<close>

fun IndexOfByPredicate :: "('a \<Rightarrow> bool) \<Rightarrow> 'a list \<Rightarrow> nat option" where
  "IndexOfByPredicate P [] = None"
| "IndexOfByPredicate P (x # xs) =
     (if P x then Some 0 else map_option Suc (IndexOfByPredicate P xs))"

text \<open>
  \<open>TArray::RemoveAtSwap\<close> fills the hole with the last element instead of shifting the
  elements behind it.
\<close>

definition RemoveAtSwap :: "nat \<Rightarrow> 'a list \<Rightarrow> 'a list" where
  "RemoveAtSwap i xs = butlast (xs[i := last xs])"

definition UnregisterListenerInternal ::
  "ptr \<Rightarrow> int \<Rightarrow> UGameplayMessageSubsystem \<Rightarrow> UGameplayMessageSubsystem" where
  "UnregisterListenerInternal StructType' HandleID' s =
     (case ListenerMap s StructType' of
        None \<Rightarrow> s
      | Some StructMap \<Rightarrow>
          (let Ls = (case IndexOfByPredicate (\<lambda>Other. HandleID Other = HandleID') (Listeners StructMap) of
                       None \<Rightarrow> Listeners StructMap
                     | Some MatchIndex \<Rightarrow> RemoveAtSwap MatchIndex (Listeners StructMap))
           in if length Ls = 0
              then s\<lparr>ListenerMap := (ListenerMap s)(StructType' := None)\<rparr>
              else s\<lparr>ListenerMap := (ListenerMap s)(StructType' \<mapsto> StructMap\<lparr>Listeners := Ls\<rparr>)\<rparr>))"

text \<open>
  \<open>check(Handle.Subsystem == this)\<close> stops the process when the condition is false and
  the build has checks enabled (\<open>DO_CHECK\<close>); a build without them evaluates nothing.
\<close>

datatype abort = CheckFailed

definition UnregisterListener ::
  "bool \<Rightarrow> ptr \<Rightarrow> FGameplayMessageListenerHandle \<Rightarrow> UGameplayMessageSubsystem \<Rightarrow>
   abort + UGameplayMessageSubsystem" where
  "UnregisterListener DO_CHECK this Handle s =
     (if Handle_IsValid Handle
      then (if DO_CHECK \<and> Subsystem Handle \<noteq> Some this then Inl CheckFailed
            else Inr (UnregisterListenerInternal (StructType Handle) (ID Handle) s))
      else Inr (s\<lparr>Log := Log s @ [''Trying to unregister an invalid Handle.'']\<rparr>))"

text \<open>
  \<open>FGameplayMessageListenerHandle::Unregister\<close> reaches its router through the weak
  pointer \<open>Subsystem\<close>: \<open>routers\<close> maps the address of every live router to its state.
\<close>

definition Handle_Unregister ::
  "bool \<Rightarrow> (ptr \<rightharpoonup> UGameplayMessageSubsystem) \<Rightarrow> FGameplayMessageListenerHandle \<Rightarrow>
   abort + ((ptr \<rightharpoonup> UGameplayMessageSubsystem) \<times> FGameplayMessageListenerHandle)" where
  "Handle_Unregister DO_CHECK routers h =
     (case Subsystem h of
        None \<Rightarrow> Inr (routers, h)
      | Some a \<Rightarrow>
          (case routers a of
             None \<Rightarrow> Inr (routers, h)
           | Some StrongSubsystem \<Rightarrow>
               (case UnregisterListener DO_CHECK a h StrongSubsystem of
                  Inl e \<Rightarrow> Inl e
                | Inr s' \<Rightarrow> Inr (routers(a \<mapsto> s'), h\<lparr>Subsystem := None, StructType := 0, ID := 0\<rparr>))))"

subsection \<open>Broadcast\<close>


definition TagMatches :: "FGameplayTag \<Rightarrow> FGameplayMessageListenerData \<Rightarrow> bool" where
  "TagMatches Channel' Listener =
     (let bMatchAny = (MatchType Listener = PartialMatch \<and> MatchesTag Channel' (Channel Listener));
          bMatchExact = (MatchType Listener = ExactMatch \<and> MatchesTagExact Channel' (Channel Listener))
      in bMatchAny \<or> bMatchExact)"

text \<open>
  The loop over the copy \<open>ListenerArray\<close>. \<open>live\<close> says which struct types a weak pointer
  still resolves. The result is the list of the entries whose callback was invoked, in
  the order of the calls, and the router after the loop.
\<close>

fun DispatchLoop ::
  "Callbacks \<Rightarrow> (ptr \<Rightarrow> bool) \<Rightarrow> FGameplayTag \<Rightarrow> ptr \<Rightarrow> ptr option \<Rightarrow>
   FGameplayMessageListenerData list \<Rightarrow> UGameplayMessageSubsystem \<Rightarrow>
   FGameplayMessageListenerData list \<times> UGameplayMessageSubsystem" where
  "DispatchLoop cbs live Channel' StructType' TargetObject' [] s = ([], s)"
| "DispatchLoop cbs live Channel' StructType' TargetObject' (Listener # rest) s =
     (if \<not> live (ListenerStructType Listener)
      then DispatchLoop cbs live Channel' StructType' TargetObject' rest
             (UnregisterListenerInternal StructType' (HandleID Listener)
                (s\<lparr>Log := Log s @ [''Listener struct type has gone invalid. Removing listener from list'']\<rparr>))
      else if StructType' \<noteq> ListenerStructType Listener
      then DispatchLoop cbs live Channel' StructType' TargetObject' rest s
      else if TargetObject Listener \<noteq> None \<and> TargetObject Listener \<noteq> TargetObject'
      then DispatchLoop cbs live Channel' StructType' TargetObject' rest s
      else if \<not> TagMatches Channel' Listener
      then DispatchLoop cbs live Channel' StructType' TargetObject' rest s
      else (let s' = cbs (ReceivedCallback Listener) Channel' StructType' s
            in if bInterrupted (BroadcastResultCache s')
               then ([Listener], s')
               else (let (invoked, s'') = DispatchLoop cbs live Channel' StructType' TargetObject' rest s'
                     in (Listener # invoked, s''))))"

text \<open>
  \<open>BroadcastMessageInternal\<close> returns the result, the invoked entries and the router
  after the call. The optional logging of the message (\<open>ShouldLogMessages\<close>) writes to
  the diagnostic sink only and is left out.
\<close>

definition BroadcastMessageInternal ::
  "Callbacks \<Rightarrow> (ptr \<Rightarrow> bool) \<Rightarrow> FGameplayTag \<Rightarrow> ptr \<Rightarrow> ptr option \<Rightarrow> UGameplayMessageSubsystem \<Rightarrow>
   FGameplayMessageBroadcastResult \<times> FGameplayMessageListenerData list \<times> UGameplayMessageSubsystem" where
  "BroadcastMessageInternal cbs live Channel' StructType' TargetObject' s =
     (let s0 = s\<lparr>BroadcastResultCache := Reset (BroadcastResultCache s)\<rparr>
      in case ListenerMap s0 StructType' of
           None \<Rightarrow> (BroadcastResultCache s0, [], s0)
         | Some pList \<Rightarrow>
             (let (invoked, s1) = DispatchLoop cbs live Channel' StructType' TargetObject' (Listeners pList) s0
              in (BroadcastResultCache s1, invoked, s1)))"

section \<open>The spatial router (GameplayWorldMessageSubsystem)\<close>

text \<open>
  World coordinates and radii are exact real numbers here: the rounding of the \<open>float\<close>
  and \<open>double\<close> arithmetic of the source is outside the model. \<open>FloorToInt\<close> is the
  mathematical floor; it agrees with the source while the cell coordinate fits \<open>int32\<close>.
\<close>

record FVector =
  X :: real
  Y :: real
  Z :: real

definition GRID_SIZE :: real where
  "GRID_SIZE = 1600"

definition DistSquared :: "FVector \<Rightarrow> FVector \<Rightarrow> real" where
  "DistSquared V1 V2 = (X V2 - X V1)\<^sup>2 + (Y V2 - Y V1)\<^sup>2 + (Z V2 - Z V1)\<^sup>2"

definition FloorToInt :: "real \<Rightarrow> int" where
  "FloorToInt F = \<lfloor>F\<rfloor>"

definition Clamp :: "real \<Rightarrow> real \<Rightarrow> real \<Rightarrow> real" where
  "Clamp x MinValue MaxValue = (if x < MinValue then MinValue else if x < MaxValue then x else MaxValue)"

text \<open>
  \<open>(static_cast<int64>(GridX) << 32) | (static_cast<int64>(GridY) & 0xFFFFFFFF)\<close>: the
  high word is \<open>GridX\<close>, the low word is the two's complement of \<open>GridY\<close>.
\<close>

definition PackGridID :: "int \<Rightarrow> int \<Rightarrow> int" where
  "PackGridID GridX GridY = GridX * 4294967296 + GridY mod 4294967296"

definition GetGridID :: "FVector \<Rightarrow> int" where
  "GetGridID WorldPosition =
     (let GridX = FloorToInt (X WorldPosition / GRID_SIZE);
          GridY = FloorToInt (Y WorldPosition / GRID_SIZE)
      in PackGridID GridX GridY)"

text \<open>The test in the body of the two loops of \<open>GetGridsInRadius\<close>.\<close>

definition GridIntersects :: "FVector \<Rightarrow> real \<Rightarrow> int \<Rightarrow> int \<Rightarrow> bool" where
  "GridIntersects Center Radius GridX GridY =
     (let GridMin = \<lparr>X = real_of_int GridX * GRID_SIZE, Y = real_of_int GridY * GRID_SIZE, Z = 0\<rparr>;
          GridMax = \<lparr>X = real_of_int (GridX + 1) * GRID_SIZE, Y = real_of_int (GridY + 1) * GRID_SIZE, Z = 0\<rparr>;
          ClosestPoint = \<lparr>X = Clamp (X Center) (X GridMin) (X GridMax),
                          Y = Clamp (Y Center) (Y GridMin) (Y GridMax),
                          Z = Z Center\<rparr>;
          DistanceSquared = DistSquared Center ClosestPoint
      in DistanceSquared \<le> Radius * Radius)"

text \<open>
  The loops run over \<open>GridX\<close> from \<open>MinGridX\<close> to \<open>MaxGridX\<close> and, inside, over \<open>GridY\<close>
  from \<open>MinGridY\<close> to \<open>MaxGridY\<close>: the pairs of \<open>List.product\<close>, in its order.
\<close>

definition GetGridsInRadius :: "FVector \<Rightarrow> real \<Rightarrow> int list" where
  "GetGridsInRadius Center Radius =
     (let MinGridX = FloorToInt ((X Center - Radius) / GRID_SIZE);
          MaxGridX = FloorToInt ((X Center + Radius) / GRID_SIZE);
          MinGridY = FloorToInt ((Y Center - Radius) / GRID_SIZE);
          MaxGridY = FloorToInt ((Y Center + Radius) / GRID_SIZE)
      in map (\<lambda>(GridX, GridY). PackGridID GridX GridY)
           (filter (\<lambda>(GridX, GridY). GridIntersects Center Radius GridX GridY)
              (List.product [MinGridX..MaxGridX] [MinGridY..MaxGridY])))"

text \<open>
  The fields of \<open>FGameplayWorldMessageListenerData\<close> that it shares with the global
  router's entry carry the prefix \<open>W\<close>. \<open>FGameplayWorldMessageListenerHandle\<close> has the
  fields and the \<open>IsValid\<close> of \<open>FGameplayMessageListenerHandle\<close>.
\<close>

record FGameplayWorldMessageListenerData =
  WReceivedCallback :: nat
  WHandleID :: int
  WMatchType :: EGameplayMessageMatch
  WListenerStructType :: ptr
  WChannel :: FGameplayTag
  WPriority :: int
  ListenPosition :: FVector
  ListenRadius :: real

type_synonym FGameplayWorldMessageListenerHandle = FGameplayMessageListenerHandle

record FGridListenerList =
  GridListeners :: "FGameplayWorldMessageListenerData list"
  GridHandleID :: int

record FListenerSpatialInfo =
  InfoListenPosition :: FVector
  InfoListenRadius :: real

record UGameplayWorldMessageSubsystem =
  GridListenerMap :: "int \<rightharpoonup> FGridListenerList"
  HandleToSpatialMap :: "int \<rightharpoonup> FListenerSpatialInfo"
  WBroadcastResultCache :: FGameplayMessageBroadcastResult
  WLog :: "string list"

definition InitialWorldSubsystem :: UGameplayWorldMessageSubsystem where
  "InitialWorldSubsystem =
     \<lparr>GridListenerMap = Map.empty, HandleToSpatialMap = Map.empty,
      WBroadcastResultCache = \<lparr>bCancelled = False, bInterrupted = False\<rparr>,
      WLog = []\<rparr>"

type_synonym WCallbacks =
  "nat \<Rightarrow> FGameplayTag \<Rightarrow> ptr \<Rightarrow> UGameplayWorldMessageSubsystem \<Rightarrow> UGameplayWorldMessageSubsystem"

subsection \<open>Registration\<close>

text \<open>The grids of a listener, with the fallback to the grid of its position.\<close>

definition RelevantGridsOf :: "FVector \<Rightarrow> real \<Rightarrow> int list" where
  "RelevantGridsOf ListenPosition' ListenRadius' =
     (let RelevantGrids = GetGridsInRadius ListenPosition' ListenRadius'
      in if length RelevantGrids = 0 then [GetGridID ListenPosition'] else RelevantGrids)"

definition GridFindOrAdd :: "(int \<rightharpoonup> FGridListenerList) \<Rightarrow> int \<Rightarrow> FGridListenerList" where
  "GridFindOrAdd m GridID = (case m GridID of None \<Rightarrow> \<lparr>GridListeners = [], GridHandleID = 0\<rparr> | Some l \<Rightarrow> l)"

definition InsertByPriority ::
  "FGameplayWorldMessageListenerData \<Rightarrow> FGridListenerList \<Rightarrow> FGridListenerList" where
  "InsertByPriority ListenerData GridList =
     (let InsertIndex = FindInsertIndex (WPriority ListenerData) (map WPriority (GridListeners GridList))
      in GridList\<lparr>GridListeners := Insert ListenerData InsertIndex (GridListeners GridList)\<rparr>)"

text \<open>One round of the loop "Add listener to all relevant grids", and the loop.\<close>

definition AddToGrid ::
  "FGameplayWorldMessageListenerData \<Rightarrow> int \<Rightarrow> (int \<rightharpoonup> FGridListenerList) \<Rightarrow>
   (int \<rightharpoonup> FGridListenerList)" where
  "AddToGrid ListenerData GridID m = m(GridID \<mapsto> InsertByPriority ListenerData (GridFindOrAdd m GridID))"

definition AddToGrids ::
  "FGameplayWorldMessageListenerData \<Rightarrow> int list \<Rightarrow> (int \<rightharpoonup> FGridListenerList) \<Rightarrow>
   (int \<rightharpoonup> FGridListenerList)" where
  "AddToGrids ListenerData Grids m = fold (AddToGrid ListenerData) Grids m"

text \<open>
  \<open>GlobalHandleID\<close> is a function-local static of the source, shared by all spatial
  routers of the process: it is passed in and returned.
\<close>

definition WRegisterListenerInternal ::
  "ptr \<Rightarrow> FGameplayTag \<Rightarrow> nat \<Rightarrow> ptr \<Rightarrow> EGameplayMessageMatch \<Rightarrow> int \<Rightarrow> FVector \<Rightarrow> real \<Rightarrow>
   int \<Rightarrow> UGameplayWorldMessageSubsystem \<Rightarrow>
   FGameplayWorldMessageListenerHandle \<times> int \<times> UGameplayWorldMessageSubsystem" where
  "WRegisterListenerInternal this Channel' Callback StructType' MatchType' Priority' ListenPosition' ListenRadius'
       GlobalHandleID s =
     (let RelevantGrids = RelevantGridsOf ListenPosition' ListenRadius';
          NewID = int32_incr GlobalHandleID;
          ListenerData = \<lparr>WReceivedCallback = Callback, WHandleID = NewID, WMatchType = MatchType',
                          WListenerStructType = StructType', WChannel = Channel', WPriority = Priority',
                          ListenPosition = ListenPosition', ListenRadius = ListenRadius'\<rparr>;
          SpatialInfo = \<lparr>InfoListenPosition = ListenPosition', InfoListenRadius = ListenRadius'\<rparr>
      in (\<lparr>Subsystem = Some this, StructType = StructType', ID = NewID\<rparr>, NewID,
          s\<lparr>GridListenerMap := AddToGrids ListenerData RelevantGrids (GridListenerMap s),
            HandleToSpatialMap := (HandleToSpatialMap s)(NewID \<mapsto> SpatialInfo)\<rparr>))"

subsection \<open>Unregistration\<close>

text \<open>
  One round of the loop over \<open>RelevantGrids\<close> in \<open>UnregisterListenerInternal\<close>; the state
  of the loop is the map, \<open>GridIDsToClean\<close> and the log.
\<close>

definition UnregisterFromGrid ::
  "int \<Rightarrow> int \<Rightarrow> (int \<rightharpoonup> FGridListenerList) \<times> int list \<times> string list \<Rightarrow>
   (int \<rightharpoonup> FGridListenerList) \<times> int list \<times> string list" where
  "UnregisterFromGrid HandleID' GridID st =
     (case st of (m, GridIDsToClean, lg) \<Rightarrow>
        (case m GridID of
           Some GridList \<Rightarrow>
             (let Ls = filter (\<lambda>Listener. WHandleID Listener \<noteq> HandleID') (GridListeners GridList);
                  RemovedCount = length (GridListeners GridList) - length Ls;
                  lg' = (if RemovedCount = 0
                         then lg @ [''Listener should be in grid but not found in grid's listener list'']
                         else lg);
                  GridIDsToClean' = (if length Ls = 0 then GridIDsToClean @ [GridID] else GridIDsToClean)
              in (m(GridID \<mapsto> GridList\<lparr>GridListeners := Ls\<rparr>), GridIDsToClean', lg'))
         | None \<Rightarrow> (m, GridIDsToClean, lg @ [''Listener should be in grid but grid not found''])))"

text \<open>The loop "Clean up empty grids".\<close>

definition RemoveGrid :: "int \<Rightarrow> (int \<rightharpoonup> FGridListenerList) \<Rightarrow> (int \<rightharpoonup> FGridListenerList)" where
  "RemoveGrid GridID m = m(GridID := None)"

definition RemoveGrids :: "int list \<Rightarrow> (int \<rightharpoonup> FGridListenerList) \<Rightarrow> (int \<rightharpoonup> FGridListenerList)" where
  "RemoveGrids GridIDsToClean m = fold RemoveGrid GridIDsToClean m"

definition WUnregisterListenerInternal ::
  "ptr \<Rightarrow> int \<Rightarrow> UGameplayWorldMessageSubsystem \<Rightarrow> UGameplayWorldMessageSubsystem" where
  "WUnregisterListenerInternal StructType' HandleID' s =
     (case HandleToSpatialMap s HandleID' of
        None \<Rightarrow> s\<lparr>WLog := WLog s @ [''Trying to unregister listener with unknown HandleID'']\<rparr>
      | Some SpatialInfo \<Rightarrow>
          (let RelevantGrids = RelevantGridsOf (InfoListenPosition SpatialInfo) (InfoListenRadius SpatialInfo)
           in case fold (UnregisterFromGrid HandleID') RelevantGrids (GridListenerMap s, [], WLog s) of
                (m, GridIDsToClean, lg) \<Rightarrow>
                  s\<lparr>GridListenerMap := RemoveGrids GridIDsToClean m,
                    HandleToSpatialMap := (HandleToSpatialMap s)(HandleID' := None),
                    WLog := lg\<rparr>))"

definition WUnregisterListener ::
  "bool \<Rightarrow> ptr \<Rightarrow> FGameplayWorldMessageListenerHandle \<Rightarrow> UGameplayWorldMessageSubsystem \<Rightarrow>
   abort + UGameplayWorldMessageSubsystem" where
  "WUnregisterListener DO_CHECK this Handle s =
     (if Handle_IsValid Handle
      then (if DO_CHECK \<and> Subsystem Handle \<noteq> Some this then Inl CheckFailed
            else Inr (WUnregisterListenerInternal (StructType Handle) (ID Handle) s))
      else Inr (s\<lparr>WLog := WLog s @ [''Trying to unregister an invalid Handle.'']\<rparr>))"

text \<open>
  \<open>FGameplayWorldMessageListenerHandle::Unregister\<close>, with the live spatial routers in
  \<open>routers\<close> as for the handle of the global router.
\<close>

definition WHandle_Unregister ::
  "bool \<Rightarrow> (ptr \<rightharpoonup> UGameplayWorldMessageSubsystem) \<Rightarrow> FGameplayWorldMessageListenerHandle \<Rightarrow>
   abort + ((ptr \<rightharpoonup> UGameplayWorldMessageSubsystem) \<times> FGameplayWorldMessageListenerHandle)" where
  "WHandle_Unregister DO_CHECK routers h =
     (case Subsystem h of
        None \<Rightarrow> Inr (routers, h)
      | Some a \<Rightarrow>
          (case routers a of
             None \<Rightarrow> Inr (routers, h)
           | Some StrongSubsystem \<Rightarrow>
               (case WUnregisterListener DO_CHECK a h StrongSubsystem of
                  Inl e \<Rightarrow> Inl e
                | Inr s' \<Rightarrow> Inr (routers(a \<mapsto> s'), h\<lparr>Subsystem := None, StructType := 0, ID := 0\<rparr>))))"

subsection \<open>Moving a listener\<close>

text \<open>The search for the listener data "from any grid where it exists".\<close>

fun FindListenerData ::
  "(int \<rightharpoonup> FGridListenerList) \<Rightarrow> int list \<Rightarrow> int \<Rightarrow> FGameplayWorldMessageListenerData option" where
  "FindListenerData m [] HandleID' = None"
| "FindListenerData m (GridID # rest) HandleID' =
     (case m GridID of
        None \<Rightarrow> FindListenerData m rest HandleID'
      | Some GridList \<Rightarrow>
          (case find (\<lambda>Listener. WHandleID Listener = HandleID') (GridListeners GridList) of
             Some Listener \<Rightarrow> Some Listener
           | None \<Rightarrow> FindListenerData m rest HandleID'))"

text \<open>One round of the loop "Remove from old grids".\<close>

definition RemoveFromGrid ::
  "int \<Rightarrow> int \<Rightarrow> (int \<rightharpoonup> FGridListenerList) \<times> int list \<Rightarrow> (int \<rightharpoonup> FGridListenerList) \<times> int list" where
  "RemoveFromGrid HandleID' GridID st =
     (case st of (m, GridIDsToClean) \<Rightarrow>
        (case m GridID of
           Some GridList \<Rightarrow>
             (let Ls = filter (\<lambda>Listener. WHandleID Listener \<noteq> HandleID') (GridListeners GridList);
                  GridIDsToClean' = (if length Ls = 0 then GridIDsToClean @ [GridID] else GridIDsToClean)
              in (m(GridID \<mapsto> GridList\<lparr>GridListeners := Ls\<rparr>), GridIDsToClean'))
         | None \<Rightarrow> (m, GridIDsToClean)))"

text \<open>The loop "Update existing listeners": the first entry of the handle, then \<open>break\<close>.\<close>

fun UpdateFirst ::
  "int \<Rightarrow> FVector \<Rightarrow> real \<Rightarrow> FGameplayWorldMessageListenerData list \<Rightarrow> FGameplayWorldMessageListenerData list" where
  "UpdateFirst HandleID' P R [] = []"
| "UpdateFirst HandleID' P R (Listener # rest) =
     (if WHandleID Listener = HandleID'
      then Listener\<lparr>ListenPosition := P, ListenRadius := R\<rparr> # rest
      else Listener # UpdateFirst HandleID' P R rest)"

definition UpdateInGrid ::
  "int \<Rightarrow> FVector \<Rightarrow> real \<Rightarrow> int \<Rightarrow> (int \<rightharpoonup> FGridListenerList) \<Rightarrow> (int \<rightharpoonup> FGridListenerList)" where
  "UpdateInGrid HandleID' P R GridID m =
     (case m GridID of
        Some GridList \<Rightarrow> m(GridID \<mapsto> GridList\<lparr>GridListeners := UpdateFirst HandleID' P R (GridListeners GridList)\<rparr>)
      | None \<Rightarrow> m)"

definition UpdateRegisterListenerLocation ::
  "ptr \<Rightarrow> FGameplayWorldMessageListenerHandle \<Rightarrow> FVector \<Rightarrow> real \<Rightarrow> UGameplayWorldMessageSubsystem \<Rightarrow>
   bool \<times> UGameplayWorldMessageSubsystem" where
  "UpdateRegisterListenerLocation this Handle NewListenPosition NewListenRadius s =
     (if \<not> Handle_IsValid Handle \<or> Subsystem Handle \<noteq> Some this
      then (False, s\<lparr>WLog := WLog s @ [''Trying to update location for an invalid Handle.'']\<rparr>)
      else case HandleToSpatialMap s (ID Handle) of
        None \<Rightarrow> (False, s\<lparr>WLog := WLog s @ [''Trying to update location for listener with unknown HandleID'']\<rparr>)
      | Some SpatialInfo \<Rightarrow>
          (let ActualNewRadius = (if NewListenRadius \<ge> 0 then NewListenRadius else InfoListenRadius SpatialInfo);
               OldGrids = RelevantGridsOf (InfoListenPosition SpatialInfo) (InfoListenRadius SpatialInfo);
               NewGrids = RelevantGridsOf NewListenPosition ActualNewRadius;
               GridsToRemoveFrom = filter (\<lambda>OldGrid. OldGrid \<notin> set NewGrids) OldGrids;
               GridsToAddTo = filter (\<lambda>NewGrid. NewGrid \<notin> set OldGrids) NewGrids
           in case FindListenerData (GridListenerMap s) OldGrids (ID Handle) of
                None \<Rightarrow> (False, s\<lparr>WLog := WLog s @ [''Could not find listener data during location update'']\<rparr>)
              | Some ListenerData \<Rightarrow>
                  (let UpdatedListenerData =
                         ListenerData\<lparr>ListenPosition := NewListenPosition, ListenRadius := ActualNewRadius\<rparr>
                   in case fold (RemoveFromGrid (ID Handle)) GridsToRemoveFrom (GridListenerMap s, []) of
                        (m1, GridIDsToClean) \<Rightarrow>
                          (let m2 = RemoveGrids GridIDsToClean m1;
                               m3 = AddToGrids UpdatedListenerData GridsToAddTo m2;
                               m4 = fold (UpdateInGrid (ID Handle) NewListenPosition ActualNewRadius)
                                      (filter (\<lambda>GridID. GridID \<in> set NewGrids) OldGrids) m3
                           in (True,
                               s\<lparr>GridListenerMap := m4,
                                 HandleToSpatialMap := (HandleToSpatialMap s)(ID Handle \<mapsto>
                                   \<lparr>InfoListenPosition = NewListenPosition,
                                    InfoListenRadius = ActualNewRadius\<rparr>)\<rparr>)))))"

subsection \<open>Broadcast at a position\<close>

definition WTagMatches :: "FGameplayTag \<Rightarrow> FGameplayWorldMessageListenerData \<Rightarrow> bool" where
  "WTagMatches Channel' Listener =
     (let bMatchAny = (WMatchType Listener = PartialMatch \<and> MatchesTag Channel' (WChannel Listener));
          bMatchExact = (WMatchType Listener = ExactMatch \<and> MatchesTagExact Channel' (WChannel Listener))
      in bMatchAny \<or> bMatchExact)"

fun WDispatchLoop ::
  "WCallbacks \<Rightarrow> (ptr \<Rightarrow> bool) \<Rightarrow> FGameplayTag \<Rightarrow> ptr \<Rightarrow> FVector \<Rightarrow>
   FGameplayWorldMessageListenerData list \<Rightarrow> UGameplayWorldMessageSubsystem \<Rightarrow>
   FGameplayWorldMessageListenerData list \<times> UGameplayWorldMessageSubsystem" where
  "WDispatchLoop cbs live Channel' StructType' WorldPosition [] s = ([], s)"
| "WDispatchLoop cbs live Channel' StructType' WorldPosition (Listener # rest) s =
     (if \<not> live (WListenerStructType Listener)
      then WDispatchLoop cbs live Channel' StructType' WorldPosition rest
             (WUnregisterListenerInternal StructType' (WHandleID Listener)
                (s\<lparr>WLog := WLog s @ [''Listener struct type has gone invalid. Removing listener from list'']\<rparr>))
      else if StructType' \<noteq> WListenerStructType Listener
      then WDispatchLoop cbs live Channel' StructType' WorldPosition rest s
      else if DistSquared WorldPosition (ListenPosition Listener) > ListenRadius Listener * ListenRadius Listener
      then WDispatchLoop cbs live Channel' StructType' WorldPosition rest s
      else if \<not> WTagMatches Channel' Listener
      then WDispatchLoop cbs live Channel' StructType' WorldPosition rest s
      else (let s' = cbs (WReceivedCallback Listener) Channel' StructType' s
            in if bInterrupted (WBroadcastResultCache s')
               then ([Listener], s')
               else (let (invoked, s'') = WDispatchLoop cbs live Channel' StructType' WorldPosition rest s'
                     in (Listener # invoked, s''))))"

definition WBroadcastMessageInternal ::
  "WCallbacks \<Rightarrow> (ptr \<Rightarrow> bool) \<Rightarrow> FGameplayTag \<Rightarrow> ptr \<Rightarrow> FVector \<Rightarrow> UGameplayWorldMessageSubsystem \<Rightarrow>
   FGameplayMessageBroadcastResult \<times> FGameplayWorldMessageListenerData list \<times> UGameplayWorldMessageSubsystem" where
  "WBroadcastMessageInternal cbs live Channel' StructType' WorldPosition s =
     (let s0 = s\<lparr>WBroadcastResultCache := Reset (WBroadcastResultCache s)\<rparr>;
          BroadcastGridID = GetGridID WorldPosition
      in case GridListenerMap s0 BroadcastGridID of
           None \<Rightarrow> (WBroadcastResultCache s0, [], s0)
         | Some pList \<Rightarrow>
             (let (invoked, s1) = WDispatchLoop cbs live Channel' StructType' WorldPosition (GridListeners pList) s0
              in (WBroadcastResultCache s1, invoked, s1)))"

section \<open>Vocabulary of the properties\<close>

text \<open>
  The names used to state the properties: nothing here is code of the repository.
  A \<open>Registration\<close> is the argument list of one call of \<open>RegisterListener\<close>;
  \<open>RegisterAll\<close> is a sequence of such calls; \<open>ListenersOf\<close> reads the list of a message
  type, empty when the registry has no key for it.
\<close>

record Registration =
  rChannel :: FGameplayTag
  rCallback :: nat
  rStructType :: ptr
  rMatchType :: EGameplayMessageMatch
  rPriority :: int
  rTargetObject :: "ptr option"

definition Register :: "ptr \<Rightarrow> Registration \<Rightarrow> UGameplayMessageSubsystem \<Rightarrow> FGameplayMessageListenerHandle \<times> UGameplayMessageSubsystem" where
  "Register this r s = RegisterListenerInternal this (rChannel r) (rCallback r) (rStructType r) (rMatchType r) (rPriority r) (rTargetObject r) s"

definition RegisterAll :: "ptr \<Rightarrow> Registration list \<Rightarrow> UGameplayMessageSubsystem \<Rightarrow> UGameplayMessageSubsystem" where
  "RegisterAll this regs s = fold (\<lambda>r s. snd (Register this r s)) regs s"

definition EntryRegistration :: "FGameplayMessageListenerData \<Rightarrow> Registration" where
  "EntryRegistration e = \<lparr>rChannel = Channel e, rCallback = ReceivedCallback e, rStructType = ListenerStructType e,
     rMatchType = MatchType e, rPriority = Priority e, rTargetObject = TargetObject e\<rparr>"

definition ListenersOf :: "UGameplayMessageSubsystem \<Rightarrow> ptr \<Rightarrow> FGameplayMessageListenerData list" where
  "ListenersOf s t = (case ListenerMap s t of None \<Rightarrow> [] | Some l \<Rightarrow> Listeners l)"

text \<open>
  \<open>Passes\<close> is the conjunction of the tests an entry goes through before its callback is
  called; \<open>NeverInterrupts\<close> says that no callback of the environment sets \<open>bInterrupted\<close>.
\<close>

definition Passes :: "(ptr \<Rightarrow> bool) \<Rightarrow> FGameplayTag \<Rightarrow> ptr \<Rightarrow> ptr option \<Rightarrow> FGameplayMessageListenerData \<Rightarrow> bool" where
  "Passes live Channel' StructType' TargetObject' Listener =
     (live (ListenerStructType Listener) \<and> StructType' = ListenerStructType Listener \<and>
      (TargetObject Listener = None \<or> TargetObject Listener = TargetObject') \<and>
      TagMatches Channel' Listener)"

definition NeverInterrupts :: "Callbacks \<Rightarrow> bool" where
  "NeverInterrupts cbs =
     (\<forall>k ch st s. \<not> bInterrupted (BroadcastResultCache s) \<longrightarrow>
        \<not> bInterrupted (BroadcastResultCache (cbs k ch st s)))"

definition ExampleRegistrations :: "Registration list" where
  "ExampleRegistrations =
     map (\<lambda>(cb, p). \<lparr>rChannel = [''A'', ''B''], rCallback = cb, rStructType = 7, rMatchType = ExactMatch,
                      rPriority = p, rTargetObject = None\<rparr>)
       [(1, 50), (2, 10), (3, 50), (4, 0)]"

text \<open>
  The three components of what the model of a broadcast returns.
\<close>

definition Invoked :: "'a \<times> 'b \<times> 'c \<Rightarrow> 'b" where
  "Invoked r = fst (snd r)"


definition After :: "'a \<times> 'b \<times> 'c \<Rightarrow> 'c" where
  "After r = snd (snd r)"

definition ExampleThree :: "Registration list" where
  "ExampleThree =
     map (\<lambda>(cb, p). \<lparr>rChannel = [''A'', ''B''], rCallback = cb, rStructType = 7, rMatchType = ExactMatch,
                      rPriority = p, rTargetObject = None\<rparr>)
       [(1, 0), (2, 10), (3, 50)]"

definition ExampleEntry :: "nat \<Rightarrow> int \<Rightarrow> int \<Rightarrow> FGameplayMessageListenerData" where
  "ExampleEntry cb h p =
     \<lparr>ReceivedCallback = cb, HandleID = h, MatchType = ExactMatch, ListenerStructType = 7,
      Channel = [''A'', ''B''], Priority = p, TargetObject = None\<rparr>"

definition OnlyCallback :: "nat \<Rightarrow> (UGameplayMessageSubsystem \<Rightarrow> UGameplayMessageSubsystem) \<Rightarrow> Callbacks" where
  "OnlyCallback k f = (\<lambda>j ch st s. if j = k then f s else s)"


definition TagRule :: "FGameplayTag \<Rightarrow> FGameplayMessageListenerData \<Rightarrow> bool" where
  "TagRule ch x =
     (case MatchType x of ExactMatch \<Rightarrow> ch = Channel x | PartialMatch \<Rightarrow> prefix (Channel x) ch)"

definition ExampleListener :: "EGameplayMessageMatch \<Rightarrow> Registration" where
  "ExampleListener m = \<lparr>rChannel = [''A'', ''B''], rCallback = 1, rStructType = 7, rMatchType = m,
                        rPriority = 50, rTargetObject = None\<rparr>"


definition ExampleListenerEntry :: "EGameplayMessageMatch \<Rightarrow> FGameplayMessageListenerData" where
  "ExampleListenerEntry m =
     \<lparr>ReceivedCallback = 1, HandleID = 1, MatchType = m, ListenerStructType = 7,
      Channel = [''A'', ''B''], Priority = 50, TargetObject = None\<rparr>"










definition ResetHandle :: "FGameplayMessageListenerHandle \<Rightarrow> FGameplayMessageListenerHandle" where
  "ResetHandle h = h\<lparr>Subsystem := None, StructType := 0, ID := 0\<rparr>"


text \<open>
  \<open>GetGridsInRadius\<close> keeps cell coordinates in \<open>int32\<close>: \<open>InRange\<close> says that those of a
  circle fit.
\<close>

definition InRange :: "FVector \<Rightarrow> real \<Rightarrow> bool" where
  "InRange Center Radius =
     (- 2147483648 \<le> FloorToInt ((X Center - Radius) / GRID_SIZE) \<and>
      FloorToInt ((X Center + Radius) / GRID_SIZE) \<le> 2147483647 \<and>
      - 2147483648 \<le> FloorToInt ((Y Center - Radius) / GRID_SIZE) \<and>
      FloorToInt ((Y Center + Radius) / GRID_SIZE) \<le> 2147483647)"

text \<open>
  The list of a grid cell, empty when the map has no key for it, and its entries with a
  given handle id.
\<close>

definition CellList :: "(int \<rightharpoonup> FGridListenerList) \<Rightarrow> int \<Rightarrow> FGameplayWorldMessageListenerData list" where
  "CellList m GridID = (case m GridID of None \<Rightarrow> [] | Some l \<Rightarrow> GridListeners l)"

definition CellEntries ::
  "(int \<rightharpoonup> FGridListenerList) \<Rightarrow> int \<Rightarrow> int \<Rightarrow> FGameplayWorldMessageListenerData list" where
  "CellEntries m GridID h = filter (\<lambda>Listener. WHandleID Listener = h) (CellList m GridID)"

definition WPasses ::
  "(ptr \<Rightarrow> bool) \<Rightarrow> FGameplayTag \<Rightarrow> ptr \<Rightarrow> FVector \<Rightarrow> FGameplayWorldMessageListenerData \<Rightarrow> bool" where
  "WPasses live Channel' StructType' WorldPosition Listener =
     (live (WListenerStructType Listener) \<and> StructType' = WListenerStructType Listener \<and>
      \<not> DistSquared WorldPosition (ListenPosition Listener) > ListenRadius Listener * ListenRadius Listener \<and>
      WTagMatches Channel' Listener)"

definition WNeverInterrupts :: "WCallbacks \<Rightarrow> bool" where
  "WNeverInterrupts cbs =
     (\<forall>k ch st s. \<not> bInterrupted (WBroadcastResultCache s) \<longrightarrow>
        \<not> bInterrupted (WBroadcastResultCache (cbs k ch st s)))"

definition Point :: "real \<Rightarrow> real \<Rightarrow> FVector" where
  "Point x y = \<lparr>X = x, Y = y, Z = 0\<rparr>"

definition ExampleSpatial ::
  "FGameplayWorldMessageListenerHandle \<times> int \<times> UGameplayWorldMessageSubsystem" where
  "ExampleSpatial =
     WRegisterListenerInternal 9 [''A'', ''B''] 1 7 ExactMatch 50 (Point 0 0) 100 0 InitialWorldSubsystem"

definition ForeignHandle :: FGameplayMessageListenerHandle where
  "ForeignHandle = \<lparr>Subsystem = Some 5, StructType = 7, ID = 1\<rparr>"

definition UnknownHandle :: FGameplayMessageListenerHandle where
  "UnknownHandle = \<lparr>Subsystem = Some 9, StructType = 7, ID = 42\<rparr>"

text \<open>
  The same vocabulary for the spatial router. \<open>WRegister\<close> threads the process-wide
  counter \<open>GlobalHandleID\<close> together with the router.
\<close>

record SpatialRegistration =
  sChannel :: FGameplayTag
  sCallback :: nat
  sStructType :: ptr
  sMatchType :: EGameplayMessageMatch
  sPriority :: int
  sPosition :: FVector
  sRadius :: real

definition WRegister ::
  "ptr \<Rightarrow> SpatialRegistration \<Rightarrow> int \<times> UGameplayWorldMessageSubsystem \<Rightarrow> int \<times> UGameplayWorldMessageSubsystem" where
  "WRegister this r st =
     snd (WRegisterListenerInternal this (sChannel r) (sCallback r) (sStructType r) (sMatchType r) (sPriority r)
            (sPosition r) (sRadius r) (fst st) (snd st))"

definition WRegisterAll ::
  "ptr \<Rightarrow> SpatialRegistration list \<Rightarrow> int \<times> UGameplayWorldMessageSubsystem \<Rightarrow>
   int \<times> UGameplayWorldMessageSubsystem" where
  "WRegisterAll this regs st = fold (WRegister this) regs st"

definition WEntryRegistration :: "FGameplayWorldMessageListenerData \<Rightarrow> SpatialRegistration" where
  "WEntryRegistration x =
     \<lparr>sChannel = WChannel x, sCallback = WReceivedCallback x, sStructType = WListenerStructType x,
      sMatchType = WMatchType x, sPriority = WPriority x, sPosition = ListenPosition x,
      sRadius = ListenRadius x\<rparr>"

definition GridListenersOf ::
  "UGameplayWorldMessageSubsystem \<Rightarrow> int \<Rightarrow> FGameplayWorldMessageListenerData list" where
  "GridListenersOf s GridID = CellList (GridListenerMap s) GridID"

definition ExampleSpatialRegistrations :: "SpatialRegistration list" where
  "ExampleSpatialRegistrations =
     map (\<lambda>(cb, p). \<lparr>sChannel = [''A'', ''B''], sCallback = cb, sStructType = 7, sMatchType = ExactMatch,
                      sPriority = p, sPosition = Point 0 0, sRadius = 100\<rparr>)
         [(1, 50), (2, 10), (3, 50), (4, 0)]"

definition ExampleSpatialEntry :: "nat \<Rightarrow> int \<Rightarrow> int \<Rightarrow> FGameplayWorldMessageListenerData" where
  "ExampleSpatialEntry cb h p =
     \<lparr>WReceivedCallback = cb, WHandleID = h, WMatchType = ExactMatch, WListenerStructType = 7,
      WChannel = [''A'', ''B''], WPriority = p, ListenPosition = Point 0 0, ListenRadius = 100\<rparr>"

definition WOnlyCallback ::
  "nat \<Rightarrow> (UGameplayWorldMessageSubsystem \<Rightarrow> UGameplayWorldMessageSubsystem) \<Rightarrow> WCallbacks" where
  "WOnlyCallback k f = (\<lambda>j ch st s. if j = k then f s else s)"

definition ExampleSpatialState :: UGameplayWorldMessageSubsystem where
  "ExampleSpatialState = snd (WRegisterAll 9 ExampleSpatialRegistrations (0, InitialWorldSubsystem))"

definition ExampleSpatialListener :: "EGameplayMessageMatch \<Rightarrow> SpatialRegistration" where
  "ExampleSpatialListener m =
     \<lparr>sChannel = [''A'', ''B''], sCallback = 1, sStructType = 7, sMatchType = m, sPriority = 50,
      sPosition = Point 0 0, sRadius = 100\<rparr>"

definition ExampleSpatialListenerEntry :: "EGameplayMessageMatch \<Rightarrow> FGameplayWorldMessageListenerData" where
  "ExampleSpatialListenerEntry m =
     \<lparr>WReceivedCallback = 1, WHandleID = 1, WMatchType = m, WListenerStructType = 7,
      WChannel = [''A'', ''B''], WPriority = 50, ListenPosition = Point 0 0, ListenRadius = 100\<rparr>"

section \<open>Priority-stable registration\<close>

lemma ScanIndex_append:
  "k \<le> length ps \<Longrightarrow> ScanIndex p (ps @ [x]) k Index = ScanIndex p ps k Index"
  by (induction k arbitrary: Index) (simp_all add: nth_append)

lemma ScanIndex_le: "Index \<le> n \<Longrightarrow> k \<le> n \<Longrightarrow> ScanIndex p ps k Index \<le> n"
  by (induction k arbitrary: Index) simp_all

lemma FindInsertIndex_le: "FindInsertIndex p ps \<le> length ps"
  by (simp add: FindInsertIndex_def ScanIndex_le)

lemma FindInsertIndex_snoc:
  "FindInsertIndex p (ps @ [x]) = (if x > p then FindInsertIndex p ps else Suc (length ps))"
  by (simp add: FindInsertIndex_def ScanIndex_append)

lemma FindInsertIndex_Nil: "FindInsertIndex p [] = 0"
  by (simp add: FindInsertIndex_def)

lemma drop_index_greater:
  "x \<in> set (drop (FindInsertIndex p (map f L)) L) \<Longrightarrow> f x > p"
proof (induction L rule: rev_induct)
  case Nil
  then show ?case by simp
next
  case (snoc a L)
  then show ?case
    using FindInsertIndex_le [of p "map f L"]
    by (auto simp: FindInsertIndex_snoc split: if_splits)
qed

lemma take_index_le:
  "sorted (map f L) \<Longrightarrow> x \<in> set (take (FindInsertIndex p (map f L)) L) \<Longrightarrow> f x \<le> p"
proof (induction L rule: rev_induct)
  case Nil
  then show ?case by simp
next
  case (snoc a L)
  then show ?case
    using FindInsertIndex_le [of p "map f L"]
    by (fastforce simp: FindInsertIndex_snoc sorted_append split: if_splits)
qed

lemma Insert_sorted:
  assumes "sorted (map f L)"
  shows "sorted (map f (Insert e (FindInsertIndex (f e) (map f L)) L))"
proof -
  let ?n = "FindInsertIndex (f e) (map f L)"
  have "sorted (map f (take ?n L @ drop ?n L))" using assms by simp
  then have s: "sorted (map f (take ?n L))" "sorted (map f (drop ?n L))"
    "\<forall>x\<in>set (take ?n L). \<forall>y\<in>set (drop ?n L). f x \<le> f y"
    unfolding map_append sorted_append by auto
  have a: "\<forall>x\<in>set (take ?n L). f x \<le> f e"
    using take_index_le [OF assms] by blast
  have b: "\<forall>x\<in>set (drop ?n L). f e \<le> f x"
    using drop_index_greater [where f = f and p = "f e" and L = L] by force
  show ?thesis
    unfolding Insert_def using s a b by (auto simp: sorted_append)
qed

lemma Insert_stable:
  "filter (\<lambda>x. f x = k) (Insert e (FindInsertIndex (f e) (map f L)) L)
   = filter (\<lambda>x. f x = k) (L @ [e])"
proof -
  let ?n = "FindInsertIndex (f e) (map f L)"
  have L: "filter (\<lambda>x. f x = k) L = filter (\<lambda>x. f x = k) (take ?n L) @ filter (\<lambda>x. f x = k) (drop ?n L)"
    by (metis append_take_drop_id filter_append)
  have "\<And>x. x \<in> set (drop ?n L) \<Longrightarrow> f e < f x"
    by (rule drop_index_greater)
  then have "f e = k \<Longrightarrow> filter (\<lambda>x. f x = k) (drop ?n L) = []"
    by (force simp: filter_empty_conv)
  then show ?thesis
    unfolding Insert_def using L by auto
qed

lemma ListenersOf_Register:
  "ListenersOf (snd (Register this r s)) t =
     (if rStructType r = t
      then Insert \<lparr>ReceivedCallback = rCallback r, HandleID = int32_incr (ListHandleID (FindOrAdd (ListenerMap s) t)),
                    MatchType = rMatchType r, ListenerStructType = t, Channel = rChannel r,
                    Priority = rPriority r, TargetObject = rTargetObject r\<rparr>
             (FindInsertIndex (rPriority r) (map Priority (ListenersOf s t))) (ListenersOf s t)
      else ListenersOf s t)"
  by (simp add: Register_def RegisterListenerInternal_def ListenersOf_def FindOrAdd_def Let_def split: option.splits)

lemma Register_sorted:
  "sorted (map Priority (ListenersOf s t)) \<Longrightarrow> sorted (map Priority (ListenersOf (snd (Register this r s)) t))"
  unfolding ListenersOf_Register
  using Insert_sorted [where f = Priority and L = "ListenersOf s t" and e = "\<lparr>ReceivedCallback = rCallback r, HandleID = int32_incr (ListHandleID (FindOrAdd (ListenerMap s) t)),
                    MatchType = rMatchType r, ListenerStructType = t, Channel = rChannel r,
                    Priority = rPriority r, TargetObject = rTargetObject r\<rparr>"]
  by simp

lemma Register_stable:
  "map EntryRegistration (filter (\<lambda>x. Priority x = k) (ListenersOf (snd (Register this r s)) t)) =
   map EntryRegistration (filter (\<lambda>x. Priority x = k) (ListenersOf s t)) @
   filter (\<lambda>r. rStructType r = t \<and> rPriority r = k) [r]"
proof (cases "rStructType r = t")
  case False
  then show ?thesis by (simp add: ListenersOf_Register)
next
  case True
  define e where "e = \<lparr>ReceivedCallback = rCallback r, HandleID = int32_incr (ListHandleID (FindOrAdd (ListenerMap s) t)),
                    MatchType = rMatchType r, ListenerStructType = t, Channel = rChannel r,
                    Priority = rPriority r, TargetObject = rTargetObject r\<rparr>"
  have pe: "rPriority r = Priority e" by (simp add: e_def)
  have er: "EntryRegistration e = r" using True by (simp add: e_def EntryRegistration_def)
  have "ListenersOf (snd (Register this r s)) t =
        Insert e (FindInsertIndex (Priority e) (map Priority (ListenersOf s t))) (ListenersOf s t)"
    using True by (simp add: ListenersOf_Register e_def)
  then have "filter (\<lambda>x. Priority x = k) (ListenersOf (snd (Register this r s)) t) =
        filter (\<lambda>x. Priority x = k) (ListenersOf s t @ [e])"
    by (simp only: Insert_stable [where f = Priority])
  then show ?thesis using True er by (simp add: pe)
qed

lemma RegisterAll_sorted:
  "sorted (map Priority (ListenersOf s t)) \<Longrightarrow> sorted (map Priority (ListenersOf (RegisterAll this regs s) t))"
  unfolding RegisterAll_def
  by (induction regs arbitrary: s) (simp_all add: Register_sorted)

lemma RegisterAll_stable:
  "map EntryRegistration (filter (\<lambda>x. Priority x = k) (ListenersOf (RegisterAll this regs s) t)) =
   map EntryRegistration (filter (\<lambda>x. Priority x = k) (ListenersOf s t)) @
   filter (\<lambda>r. rStructType r = t \<and> rPriority r = k) regs"
  unfolding RegisterAll_def
proof (induction regs arbitrary: s)
  case Nil
  then show ?case by simp
next
  case (Cons r regs)
  show ?case
    using Cons.IH [of "snd (Register this r s)"] Register_stable [of k this r s t]
    by simp
qed

lemma Cache_UnregisterListenerInternal:
  "BroadcastResultCache (UnregisterListenerInternal t h s) = BroadcastResultCache s"
  by (simp add: UnregisterListenerInternal_def Let_def split: option.splits)

lemma DispatchLoop_NeverInterrupts:
  "NeverInterrupts cbs \<Longrightarrow> \<not> bInterrupted (BroadcastResultCache s) \<Longrightarrow>
   fst (DispatchLoop cbs live ch st tgt L s) = filter (Passes live ch st tgt) L"
proof (induction L arbitrary: s)
  case Nil
  then show ?case by simp
next
  case (Cons e L)
  show ?case
  proof (cases "Passes live ch st tgt e")
    case True
    have ni: "\<not> bInterrupted (BroadcastResultCache (cbs (ReceivedCallback e) ch st s))"
      using Cons.prems by (simp add: NeverInterrupts_def)
    show ?thesis
      using True ni Cons.IH [OF Cons.prems(1) ni]
      by (auto simp: Passes_def Let_def split: prod.splits)
  next
    case False
    then show ?thesis
      using Cons.IH [OF Cons.prems] Cons.IH [OF Cons.prems(1), of "UnregisterListenerInternal st (HandleID e)
                (s\<lparr>Log := Log s @ [''Listener struct type has gone invalid. Removing listener from list'']\<rparr>)"]
      by (auto simp: Passes_def Cache_UnregisterListenerInternal Cons.prems)
  qed
qed

lemma Example_Listeners:
  "map ReceivedCallback (ListenersOf (RegisterAll 9 ExampleRegistrations InitialSubsystem) 7) = [4, 2, 1, 3]"
  by (simp add: ExampleRegistrations_def RegisterAll_def ListenersOf_Register ListenersOf_def InitialSubsystem_def
      FindOrAdd_def FindInsertIndex_def Insert_def int32_incr_def Register_def RegisterListenerInternal_def Let_def)

section \<open>The dispatch loop of the global router\<close>

lemma DispatchLoop_prefix:
  "prefix (fst (DispatchLoop cbs live ch st tgt L s)) (filter (Passes live ch st tgt) L)"
proof (induction L arbitrary: s)
  case Nil
  then show ?case by simp
next
  case (Cons e L)
  show ?case
  proof (cases "Passes live ch st tgt e")
    case True
    then show ?thesis
      using Cons.IH [of "cbs (ReceivedCallback e) ch st s"]
      by (auto simp: Passes_def Let_def split: prod.splits)
  next
    case False
    then show ?thesis
      using Cons.IH [of s] Cons.IH [of "UnregisterListenerInternal st (HandleID e)
                (s\<lparr>Log := Log s @ [''Listener struct type has gone invalid. Removing listener from list'']\<rparr>)"]
      by (auto simp: Passes_def)
  qed
qed

lemma Broadcast_prefix:
  "prefix (Invoked (BroadcastMessageInternal cbs live ch st tgt s)) (filter (Passes live ch st tgt) (ListenersOf s st))"
  using DispatchLoop_prefix [of cbs live ch st tgt _ "s\<lparr>BroadcastResultCache := Reset (BroadcastResultCache s)\<rparr>"]
  by (auto simp: BroadcastMessageInternal_def Invoked_def ListenersOf_def Let_def case_prod_beta split: option.splits)

lemma Reset_not_interrupted: "\<not> bInterrupted (Reset r)"
  by (simp add: Reset_def)

lemma Broadcast_NeverInterrupts:
  "NeverInterrupts cbs \<Longrightarrow>
   Invoked (BroadcastMessageInternal cbs live ch st tgt s) = filter (Passes live ch st tgt) (ListenersOf s st)"
  using DispatchLoop_NeverInterrupts [of cbs "s\<lparr>BroadcastResultCache := Reset (BroadcastResultCache s)\<rparr>" live ch st tgt]
  by (auto simp: BroadcastMessageInternal_def Invoked_def ListenersOf_def Let_def Reset_not_interrupted
      case_prod_beta split: option.splits)


lemma Example_Listeners_full:
  "ListenersOf (RegisterAll 9 ExampleRegistrations InitialSubsystem) 7 =
   [\<lparr>ReceivedCallback = 4, HandleID = 4, MatchType = ExactMatch, ListenerStructType = 7,
      Channel = [''A'', ''B''], Priority = 0, TargetObject = None\<rparr>,
    \<lparr>ReceivedCallback = 2, HandleID = 2, MatchType = ExactMatch, ListenerStructType = 7,
      Channel = [''A'', ''B''], Priority = 10, TargetObject = None\<rparr>,
    \<lparr>ReceivedCallback = 1, HandleID = 1, MatchType = ExactMatch, ListenerStructType = 7,
      Channel = [''A'', ''B''], Priority = 50, TargetObject = None\<rparr>,
    \<lparr>ReceivedCallback = 3, HandleID = 3, MatchType = ExactMatch, ListenerStructType = 7,
      Channel = [''A'', ''B''], Priority = 50, TargetObject = None\<rparr>]"
  by (simp add: ExampleRegistrations_def RegisterAll_def ListenersOf_Register ListenersOf_def InitialSubsystem_def
      FindOrAdd_def FindInsertIndex_def Insert_def int32_incr_def Register_def RegisterListenerInternal_def Let_def)

lemma Example_Broadcast:
  assumes "NeverInterrupts cbs" "live 7"
  shows "map ReceivedCallback (Invoked (BroadcastMessageInternal cbs live [''A'', ''B''] 7 tgt
           (RegisterAll 9 ExampleRegistrations InitialSubsystem))) = [4, 2, 1, 3]"
  unfolding Broadcast_NeverInterrupts [OF assms(1)] Example_Listeners_full
  using assms(2) by (simp add: Passes_def TagMatches_def MatchesTagExact_def)

lemma NeverInterrupts_id: "NeverInterrupts (\<lambda>k ch st s. s)"
  by (simp add: NeverInterrupts_def)

section \<open>Interruption, the result cache and unordered removal\<close>








lemma ExampleThree_Listeners:
  "ListenersOf (RegisterAll 9 ExampleThree InitialSubsystem) 7 =
     [ExampleEntry 1 1 0, ExampleEntry 2 2 10, ExampleEntry 3 3 50]"
  by (simp add: ExampleThree_def ExampleEntry_def RegisterAll_def ListenersOf_Register ListenersOf_def InitialSubsystem_def
      FindOrAdd_def FindInsertIndex_def Insert_def int32_incr_def Register_def RegisterListenerInternal_def Let_def)

lemma ExampleEntry_Passes: "Passes (\<lambda>t. True) [''A'', ''B''] 7 None (ExampleEntry cb h p)"
  by (simp add: Passes_def ExampleEntry_def TagMatches_def MatchesTagExact_def)



lemma NeverInterrupts_OnlyCallback_Unregister:
  "NeverInterrupts (OnlyCallback k (UnregisterListenerInternal t h))"
  by (simp add: NeverInterrupts_def OnlyCallback_def Cache_UnregisterListenerInternal)

lemma DispatchLoop_ExampleThree_Unregister:
  "ListenersOf (After (BroadcastMessageInternal (OnlyCallback 1 (UnregisterListenerInternal 7 3)) (\<lambda>t. True)
       [''A'', ''B''] 7 None (RegisterAll 9 ExampleThree InitialSubsystem))) 7 =
   [ExampleEntry 1 1 0, ExampleEntry 2 2 10]"
  by (simp add: BroadcastMessageInternal_def After_def ExampleThree_def ExampleEntry_def RegisterAll_def
      ListenersOf_def InitialSubsystem_def FindOrAdd_def FindInsertIndex_def Insert_def int32_incr_def
      Register_def RegisterListenerInternal_def Let_def Reset_def OnlyCallback_def TagMatches_def
      MatchesTagExact_def UnregisterListenerInternal_def RemoveAtSwap_def)

lemma Passes_TagRule: "Passes live ch st tgt x \<Longrightarrow> TagRule ch x"
  by (cases "MatchType x") (auto simp: Passes_def TagMatches_def TagRule_def MatchesTag_def MatchesTagExact_def)

lemma TagRule_Passes:
  "live (ListenerStructType x) \<Longrightarrow> ListenerStructType x = st \<Longrightarrow>
   TargetObject x = None \<or> TargetObject x = tgt \<Longrightarrow> Passes live ch st tgt x = TagRule ch x"
  by (cases "MatchType x") (auto simp: Passes_def TagMatches_def TagRule_def MatchesTag_def MatchesTagExact_def)

lemma ExampleListener_Listeners:
  "ListenersOf (snd (Register 9 (ExampleListener m) InitialSubsystem)) 7 = [ExampleListenerEntry m]"
  by (simp add: ExampleListener_def ExampleListenerEntry_def ListenersOf_def Register_def
      RegisterListenerInternal_def Let_def
      InitialSubsystem_def FindOrAdd_def FindInsertIndex_def Insert_def int32_incr_def)








text \<open>
  C5. With listeners of priorities 0, 10, 50 registered in that order, unregistering the
  first one moves the last entry into its slot (\<open>RemoveAtSwap\<close>): the list becomes 50, 10,
  which is not sorted, and the next broadcast invokes priority 50 before priority 10.
\<close>

theorem C5_unregister_breaks_priority_order:
  "map Priority (ListenersOf (RegisterAll 9 ExampleThree InitialSubsystem) 7) = [0, 10, 50] \<and>
   map Priority (ListenersOf (UnregisterListenerInternal 7 1 (RegisterAll 9 ExampleThree InitialSubsystem)) 7) = [50, 10] \<and>
   \<not> sorted (map Priority
        (ListenersOf (UnregisterListenerInternal 7 1 (RegisterAll 9 ExampleThree InitialSubsystem)) 7)) \<and>
   map ReceivedCallback (Invoked (BroadcastMessageInternal (\<lambda>k ch st s. s) (\<lambda>t. True) [''A'', ''B''] 7 None
        (UnregisterListenerInternal 7 1 (RegisterAll 9 ExampleThree InitialSubsystem)))) = [3, 2]"
proof -
  have a: "ListenersOf (UnregisterListenerInternal 7 1 (RegisterAll 9 ExampleThree InitialSubsystem)) 7 =
           [ExampleEntry 3 3 50, ExampleEntry 2 2 10]"
    by (simp add: ExampleThree_def ExampleEntry_def RegisterAll_def
      ListenersOf_def InitialSubsystem_def FindOrAdd_def FindInsertIndex_def Insert_def int32_incr_def
      Register_def RegisterListenerInternal_def Let_def UnregisterListenerInternal_def RemoveAtSwap_def)
  have b: "map ReceivedCallback (Invoked (BroadcastMessageInternal (\<lambda>k ch st s. s) (\<lambda>t. True) [''A'', ''B''] 7 None
        (UnregisterListenerInternal 7 1 (RegisterAll 9 ExampleThree InitialSubsystem)))) = [3, 2]"
    unfolding Broadcast_NeverInterrupts [OF NeverInterrupts_id] a
    by (simp add: ExampleEntry_Passes) (simp add: ExampleEntry_def)
  show ?thesis
    unfolding a ExampleThree_Listeners using b by (simp add: ExampleEntry_def)
qed

section \<open>Handle ids and unregistration in the global router\<close>

lemma IndexOfByPredicate_Some:
  "IndexOfByPredicate P xs = Some i \<Longrightarrow> i < length xs \<and> P (xs ! i)"
  by (induction xs arbitrary: i) (auto split: if_splits)

lemma IndexOfByPredicate_None:
  "IndexOfByPredicate P xs = None \<longleftrightarrow> (\<forall>x\<in>set xs. \<not> P x)"
  by (induction xs) auto

lemma RemoveAtSwap_cases:
  assumes "i < length xs"
  obtains (last) A x where "xs = A @ [x]" "RemoveAtSwap i xs = A" "xs ! i = x"
    | (inner) A x B l where "xs = A @ x # B @ [l]" "RemoveAtSwap i xs = A @ l # B" "xs ! i = x"
proof (cases "drop (Suc i) xs = []")
  case True
  have xs: "xs = take i xs @ [xs ! i]"
    using assms True id_take_nth_drop [of i xs] by simp
  have "RemoveAtSwap i xs = take i xs"
    using assms True by (simp add: RemoveAtSwap_def upd_conv_take_nth_drop butlast_append)
  then show ?thesis using xs last by blast
next
  case False
  let ?D = "drop (Suc i) xs"
  have l: "last ?D = last xs"
    using False by (simp add: last_drop)
  have D: "?D = butlast ?D @ [last xs]"
    using False l by (metis append_butlast_last_id)
  have xs: "xs = take i xs @ xs ! i # butlast ?D @ [last xs]"
    using assms D id_take_nth_drop [of i xs] by simp
  have "RemoveAtSwap i xs = take i xs @ last xs # butlast ?D"
    using assms False by (simp add: RemoveAtSwap_def upd_conv_take_nth_drop butlast_append)
  then show ?thesis using xs inner by blast
qed

lemma RemoveAtSwap_distinct_ids:
  assumes "i < length xs" "distinct (map f xs)"
  shows "distinct (map f (RemoveAtSwap i xs)) \<and> set (RemoveAtSwap i xs) \<subseteq> set xs \<and>
         (\<forall>x\<in>set (RemoveAtSwap i xs). f x \<noteq> f (xs ! i))"
  using assms(1)
proof (cases rule: RemoveAtSwap_cases)
  case (last A x)
  then show ?thesis using assms(2) by (auto simp: image_iff)
next
  case (inner A x B l)
  then show ?thesis using assms(2) by (auto simp: image_iff)
qed

lemma RemoveAtSwap_others:
  assumes "i < length xs"
  shows "set xs \<subseteq> insert (xs ! i) (set (RemoveAtSwap i xs))"
  using assms
proof (cases rule: RemoveAtSwap_cases)
  case (last A x)
  then show ?thesis by auto
next
  case (inner A x B l)
  then show ?thesis by auto
qed













lemma ListenersOf_Unregister:
  "ListenersOf (UnregisterListenerInternal t h s) t' =
     (if t' = t
      then (case IndexOfByPredicate (\<lambda>Other. HandleID Other = h) (ListenersOf s t) of
              None \<Rightarrow> ListenersOf s t
            | Some MatchIndex \<Rightarrow> RemoveAtSwap MatchIndex (ListenersOf s t))
      else ListenersOf s t')"
  by (auto simp: UnregisterListenerInternal_def ListenersOf_def Let_def split: option.splits)

lemma ListenersOf_Unregister_distinct:
  assumes "distinct (map HandleID (ListenersOf s t))"
  shows "set (ListenersOf (UnregisterListenerInternal t h s) t) = {x \<in> set (ListenersOf s t). HandleID x \<noteq> h}"
proof (cases "IndexOfByPredicate (\<lambda>Other. HandleID Other = h) (ListenersOf s t)")
  case None
  then show ?thesis
    using IndexOfByPredicate_None [of "\<lambda>Other. HandleID Other = h" "ListenersOf s t"]
    by (auto simp: ListenersOf_Unregister)
next
  case (Some i)
  then have i: "i < length (ListenersOf s t)" "HandleID (ListenersOf s t ! i) = h"
    using IndexOfByPredicate_Some [of "\<lambda>Other. HandleID Other = h" "ListenersOf s t" i] by simp_all
  have a: "set (RemoveAtSwap i (ListenersOf s t)) \<subseteq> set (ListenersOf s t)"
    "\<forall>x\<in>set (RemoveAtSwap i (ListenersOf s t)). HandleID x \<noteq> h"
    using RemoveAtSwap_distinct_ids [OF i(1) assms] i(2) by simp_all
  have b: "set (ListenersOf s t) \<subseteq> insert (ListenersOf s t ! i) (set (RemoveAtSwap i (ListenersOf s t)))"
    using RemoveAtSwap_others [OF i(1)] .
  have "set (RemoveAtSwap i (ListenersOf s t)) = {x \<in> set (ListenersOf s t). HandleID x \<noteq> h}"
    using a b i(2) by auto
  then show ?thesis
    using Some by (simp add: ListenersOf_Unregister)
qed

lemma Handle_Unregister_cases:
  "Handle_Unregister chk routers h =
     (case Subsystem h of
        None \<Rightarrow> Inr (routers, h)
      | Some a \<Rightarrow>
          (case routers a of
             None \<Rightarrow> Inr (routers, h)
           | Some s \<Rightarrow>
               Inr (routers(a \<mapsto>
                      (if Handle_IsValid h then UnregisterListenerInternal (StructType h) (ID h) s
                       else s\<lparr>Log := Log s @ [''Trying to unregister an invalid Handle.'']\<rparr>)),
                    ResetHandle h)))"
  by (simp add: Handle_Unregister_def UnregisterListener_def ResetHandle_def split: option.splits)

lemma Handle_Unregister_ResetHandle:
  "Handle_Unregister chk routers (ResetHandle h) = Inr (routers, ResetHandle h)"
  by (simp add: Handle_Unregister_def ResetHandle_def)

section \<open>Spatial coverage\<close>



lemma Clamp_closer:
  assumes "lo \<le> q" "q \<le> hi"
  shows "(Clamp p lo hi - p)\<^sup>2 \<le> (q - p)\<^sup>2"
proof -
  have "\<bar>Clamp p lo hi - p\<bar> \<le> \<bar>q - p\<bar>"
    using assms by (auto simp: Clamp_def)
  then show ?thesis by (simp add: abs_le_square_iff)
qed

lemma cell_bounds:
  "real_of_int (FloorToInt (q / GRID_SIZE)) * GRID_SIZE \<le> q"
  "q \<le> real_of_int (FloorToInt (q / GRID_SIZE) + 1) * GRID_SIZE"
proof -
  have a: "real_of_int \<lfloor>q / 1600\<rfloor> \<le> q / 1600" by (rule of_int_floor_le)
  have b: "q / 1600 < real_of_int \<lfloor>q / 1600\<rfloor> + 1" by linarith
  show "real_of_int (FloorToInt (q / GRID_SIZE)) * GRID_SIZE \<le> q"
    using a by (simp add: FloorToInt_def GRID_SIZE_def field_simps)
  show "q \<le> real_of_int (FloorToInt (q / GRID_SIZE) + 1) * GRID_SIZE"
    using b by (simp add: FloorToInt_def GRID_SIZE_def field_simps)
qed

lemma coordinate_in_scan:
  assumes "(q - p)\<^sup>2 \<le> R * R" "0 \<le> R"
  shows "FloorToInt (q / GRID_SIZE) \<in> {FloorToInt ((p - R) / GRID_SIZE)..FloorToInt ((p + R) / GRID_SIZE)}"
proof -
  have "(q - p)\<^sup>2 \<le> R\<^sup>2" using assms(1) by (simp add: power2_eq_square)
  then have "\<bar>q - p\<bar> \<le> R" using assms(2) by (metis abs_le_square_iff abs_of_nonneg)
  then have "p - R \<le> q" "q \<le> p + R" by linarith+
  then have "(p - R) / 1600 \<le> q / 1600" "q / 1600 \<le> (p + R) / 1600"
    by (simp_all add: divide_right_mono)
  then show ?thesis
    by (simp add: FloorToInt_def GRID_SIZE_def floor_mono)
qed

lemma GridIntersects_own_cell:
  assumes "DistSquared Q P \<le> R * R"
  shows "GridIntersects P R (FloorToInt (X Q / GRID_SIZE)) (FloorToInt (Y Q / GRID_SIZE))"
proof -
  let ?gx = "FloorToInt (X Q / GRID_SIZE)" and ?gy = "FloorToInt (Y Q / GRID_SIZE)"
  have x: "(Clamp (X P) (real_of_int ?gx * GRID_SIZE) (real_of_int (?gx + 1) * GRID_SIZE) - X P)\<^sup>2 \<le> (X Q - X P)\<^sup>2"
    by (rule Clamp_closer [OF cell_bounds])
  have y: "(Clamp (Y P) (real_of_int ?gy * GRID_SIZE) (real_of_int (?gy + 1) * GRID_SIZE) - Y P)\<^sup>2 \<le> (Y Q - Y P)\<^sup>2"
    by (rule Clamp_closer [OF cell_bounds])
  have "(X Q - X P)\<^sup>2 + (Y Q - Y P)\<^sup>2 \<le> DistSquared Q P"
    by (simp add: DistSquared_def power2_commute)
  then show ?thesis
    using x y assms by (simp add: GridIntersects_def DistSquared_def Let_def)
qed

lemma GetGridID_in_GetGridsInRadius:
  assumes "0 \<le> R" "DistSquared Q P \<le> R * R"
  shows "GetGridID Q \<in> set (GetGridsInRadius P R)"
proof -
  let ?gx = "FloorToInt (X Q / GRID_SIZE)" and ?gy = "FloorToInt (Y Q / GRID_SIZE)"
  have "(X Q - X P)\<^sup>2 \<le> DistSquared Q P" "(Y Q - Y P)\<^sup>2 \<le> DistSquared Q P"
    by (simp_all add: DistSquared_def power2_commute)
  then have d: "(X Q - X P)\<^sup>2 \<le> R * R" "(Y Q - Y P)\<^sup>2 \<le> R * R"
    using assms(2) by linarith+
  have scan: "?gx \<in> {FloorToInt ((X P - R) / GRID_SIZE)..FloorToInt ((X P + R) / GRID_SIZE)}"
    "?gy \<in> {FloorToInt ((Y P - R) / GRID_SIZE)..FloorToInt ((Y P + R) / GRID_SIZE)}"
    by (rule coordinate_in_scan [OF d(1) assms(1)], rule coordinate_in_scan [OF d(2) assms(1)])
  have "(?gx, ?gy) \<in> set (filter (\<lambda>(GridX, GridY). GridIntersects P R GridX GridY)
           (List.product [FloorToInt ((X P - R) / GRID_SIZE)..FloorToInt ((X P + R) / GRID_SIZE)]
              [FloorToInt ((Y P - R) / GRID_SIZE)..FloorToInt ((Y P + R) / GRID_SIZE)]))"
    using scan GridIntersects_own_cell [OF assms(2)] by simp
  then have "(\<lambda>(GridX, GridY). PackGridID GridX GridY) (?gx, ?gy) \<in> set (GetGridsInRadius P R)"
    unfolding GetGridsInRadius_def Let_def set_map by (rule imageI)
  then show ?thesis by (simp add: GetGridID_def Let_def)
qed

lemma PackGridID_inj:
  assumes "PackGridID x y = PackGridID x' y'"
      and "- 2147483648 \<le> y" "y \<le> 2147483647" "- 2147483648 \<le> y'" "y' \<le> 2147483647"
  shows "x = x' \<and> y = y'"
proof -
  have "(x * 4294967296 + y mod 4294967296) mod 4294967296 = (x' * 4294967296 + y' mod 4294967296) mod 4294967296"
    using assms(1) by (simp add: PackGridID_def)
  then have m: "y mod 4294967296 = y' mod 4294967296"
    by simp
  then have "(4294967296::int) dvd y - y'"
    by (simp add: mod_eq_dvd_iff)
  then obtain k where k: "y - y' = 4294967296 * k" by (auto simp: dvd_def)
  have "\<bar>y - y'\<bar> < 4294967296" using assms(2-5) by linarith
  then have "k = 0" using k by (cases "k = 0") auto
  then have y: "y = y'" using k by simp
  have "x * 4294967296 = x' * 4294967296"
    using assms(1) m by (simp add: PackGridID_def)
  then show ?thesis using y by simp
qed

lemma GetGridsInRadius_distinct:
  assumes "InRange P R"
  shows "distinct (GetGridsInRadius P R)"
proof -
  let ?xs = "[FloorToInt ((X P - R) / GRID_SIZE)..FloorToInt ((X P + R) / GRID_SIZE)]"
  let ?ys = "[FloorToInt ((Y P - R) / GRID_SIZE)..FloorToInt ((Y P + R) / GRID_SIZE)]"
  let ?cells = "filter (\<lambda>(GridX, GridY). GridIntersects P R GridX GridY) (List.product ?xs ?ys)"
  have d: "distinct ?cells"
    by (simp add: distinct_product)
  have "inj_on (\<lambda>(GridX, GridY). PackGridID GridX GridY) (set ?cells)"
  proof (rule inj_onI)
    fix a b
    assume a: "a \<in> set ?cells" and b: "b \<in> set ?cells"
      and eq: "(\<lambda>(GridX, GridY). PackGridID GridX GridY) a = (\<lambda>(GridX, GridY). PackGridID GridX GridY) b"
    obtain x y x' y' where ab: "a = (x, y)" "b = (x', y')" by (cases a, cases b) auto
    have "- 2147483648 \<le> y" "y \<le> 2147483647" "- 2147483648 \<le> y'" "y' \<le> 2147483647"
      using a b assms unfolding ab InRange_def by auto
    then show "a = b"
      using PackGridID_inj [of x y x' y'] eq unfolding ab by simp
  qed
  then show ?thesis
    unfolding GetGridsInRadius_def Let_def using d by (simp add: distinct_map)
qed

lemma CellList_upd:
  "CellList (m(a \<mapsto> l)) g = (if g = a then GridListeners l else CellList m g)"
  "CellList (m(a := None)) g = (if g = a then [] else CellList m g)"
  by (simp_all add: CellList_def)

lemma GridFindOrAdd_listeners: "GridListeners (GridFindOrAdd m g) = CellList m g"
  by (simp add: GridFindOrAdd_def CellList_def split: option.splits)

lemma InsertByPriority_listeners:
  "GridListeners (InsertByPriority E l) =
   Insert E (FindInsertIndex (WPriority E) (map WPriority (GridListeners l))) (GridListeners l)"
  by (simp add: InsertByPriority_def Let_def)

lemma AddToGrid_CellList:
  "CellList (AddToGrid E a m) g =
     (if g = a
      then Insert E (FindInsertIndex (WPriority E) (map WPriority (CellList m g))) (CellList m g)
      else CellList m g)"
  by (simp add: AddToGrid_def CellList_upd InsertByPriority_listeners GridFindOrAdd_listeners)

lemma AddToGrids_CellList:
  "distinct G \<Longrightarrow>
   CellList (AddToGrids E G m) g =
     (if g \<in> set G
      then Insert E (FindInsertIndex (WPriority E) (map WPriority (CellList m g))) (CellList m g)
      else CellList m g)"
  unfolding AddToGrids_def
proof (induction G arbitrary: m)
  case Nil
  then show ?case by simp
next
  case (Cons a G)
  show ?case
    using Cons.IH [of "AddToGrid E a m"] Cons.prems by (auto simp: AddToGrid_CellList)
qed




lemma RemoveFromGrid_fold:
  "fold (RemoveFromGrid h) Gr (m, c) = (m1, c1) \<Longrightarrow>
   (\<forall>g. CellList m1 g =
      (if g \<in> set Gr then filter (\<lambda>Listener. WHandleID Listener \<noteq> h) (CellList m g) else CellList m g)) \<and>
   ((\<forall>x\<in>set c. CellList m x = []) \<longrightarrow> (\<forall>x\<in>set c1. CellList m1 x = []))"
proof (induction Gr arbitrary: m c)
  case Nil
  then show ?case by simp
next
  case (Cons a Gr)
  obtain m' c' where step: "RemoveFromGrid h a (m, c) = (m', c')"
    by (cases "RemoveFromGrid h a (m, c)") auto
  have cl: "CellList m' x = (if x = a then filter (\<lambda>Listener. WHandleID Listener \<noteq> h) (CellList m x) else CellList m x)" for x
    using step by (auto simp: RemoveFromGrid_def CellList_def Let_def split: option.splits)
  have c': "set c' \<subseteq> insert a (set c)" "a \<in> set c' \<Longrightarrow> a \<notin> set c \<Longrightarrow> CellList m' a = []"
    using step by (auto simp: RemoveFromGrid_def CellList_def Let_def split: option.splits if_splits)
  have f: "fold (RemoveFromGrid h) Gr (m', c') = (m1, c1)"
    using Cons.prems by (simp only: fold_simps step)
  note IH = Cons.IH [OF f]
  have keep: "(\<forall>x\<in>set c. CellList m x = []) \<Longrightarrow> (\<forall>x\<in>set c'. CellList m' x = [])"
  proof
    fix x assume e: "\<forall>x\<in>set c. CellList m x = []" and x: "x \<in> set c'"
    show "CellList m' x = []"
    proof (cases "x \<in> set c")
      case True
      then have "CellList m x = []" using e by blast
      then show ?thesis by (auto simp: cl)
    next
      case False
      then have "x = a" using x c'(1) by auto
      then show ?thesis using c'(2) x False by simp
    qed
  qed
  show ?case
  proof (intro conjI allI impI)
    fix g
    show "CellList m1 g =
      (if g \<in> set (a # Gr) then filter (\<lambda>Listener. WHandleID Listener \<noteq> h) (CellList m g) else CellList m g)"
      using IH by (auto simp: cl)
  next
    assume "\<forall>x\<in>set c. CellList m x = []"
    then show "\<forall>x\<in>set c1. CellList m1 x = []"
      using IH keep by blast
  qed
qed

lemma RemoveGrids_CellList:
  "\<forall>x\<in>set c. CellList m x = [] \<Longrightarrow> CellList (RemoveGrids c m) g = CellList m g"
  unfolding RemoveGrids_def
proof (induction c arbitrary: m)
  case Nil
  then show ?case by simp
next
  case (Cons a c)
  have cl: "CellList (RemoveGrid a m) x = CellList m x" for x
    using Cons.prems by (simp add: RemoveGrid_def CellList_upd)
  then show ?case
    using Cons.IH [of "RemoveGrid a m"] Cons.prems by simp
qed





lemma RelevantGridsOf_distinct: "InRange P R \<Longrightarrow> distinct (RelevantGridsOf P R)"
  by (simp add: RelevantGridsOf_def Let_def GetGridsInRadius_distinct)

lemma RelevantGridsOf_covers:
  assumes "0 \<le> R" "DistSquared Q P \<le> R * R"
  shows "GetGridID Q \<in> set (RelevantGridsOf P R)"
proof -
  have "GetGridID Q \<in> set (GetGridsInRadius P R)"
    using assms by (rule GetGridID_in_GetGridsInRadius)
  then show ?thesis
    by (auto simp: RelevantGridsOf_def Let_def)
qed


lemma WCache_Unregister:
  "WBroadcastResultCache (WUnregisterListenerInternal t h s) = WBroadcastResultCache s"
  by (simp add: WUnregisterListenerInternal_def Let_def split: option.splits prod.splits)

lemma WDispatchLoop_NeverInterrupts:
  "WNeverInterrupts cbs \<Longrightarrow> \<not> bInterrupted (WBroadcastResultCache s) \<Longrightarrow>
   fst (WDispatchLoop cbs live ch st Q L s) = filter (WPasses live ch st Q) L"
proof (induction L arbitrary: s)
  case Nil
  then show ?case by simp
next
  case (Cons e L)
  show ?case
  proof (cases "WPasses live ch st Q e")
    case True
    have ni: "\<not> bInterrupted (WBroadcastResultCache (cbs (WReceivedCallback e) ch st s))"
      using Cons.prems by (simp add: WNeverInterrupts_def)
    show ?thesis
      using True ni Cons.IH [OF Cons.prems(1) ni]
      by (auto simp: WPasses_def Let_def case_prod_beta)
  next
    case False
    then show ?thesis
      using Cons.IH [OF Cons.prems] Cons.IH [OF Cons.prems(1), of "WUnregisterListenerInternal st (WHandleID e)
                (s\<lparr>WLog := WLog s @ [''Listener struct type has gone invalid. Removing listener from list'']\<rparr>)"]
      by (auto simp: WPasses_def WCache_Unregister Cons.prems)
  qed
qed

lemma WBroadcast_NeverInterrupts:
  "WNeverInterrupts cbs \<Longrightarrow>
   Invoked (WBroadcastMessageInternal cbs live ch st Q s) =
     filter (WPasses live ch st Q) (CellList (GridListenerMap s) (GetGridID Q))"
  using WDispatchLoop_NeverInterrupts [of cbs "s\<lparr>WBroadcastResultCache := Reset (WBroadcastResultCache s)\<rparr>" live ch st Q]
  by (auto simp: WBroadcastMessageInternal_def Invoked_def CellList_def Let_def Reset_not_interrupted
      case_prod_beta split: option.splits)







lemma WNeverInterrupts_id: "WNeverInterrupts (\<lambda>k ch st s. s)"
  by (simp add: WNeverInterrupts_def)

lemma InRange_examples: "InRange (Point 0 0) 100" "InRange (Point 5000 0) 100"
  by (simp_all add: InRange_def Point_def FloorToInt_def GRID_SIZE_def)



text \<open>
  C9, as stated, fails for a handle issued by a different router instance: router 9 is
  given a valid handle of router 5. With checks enabled \<open>UnregisterListener\<close> of either
  router stops at \<open>check(Handle.Subsystem == this)\<close>; with checks compiled out the global
  router removes its own listener of that type and id.
\<close>

theorem C9_foreign_handle_counterexample:
  "UnregisterListener True 9 ForeignHandle (RegisterAll 9 ExampleThree InitialSubsystem) = Inl CheckFailed \<and>
   WUnregisterListener True 9 ForeignHandle (snd (snd ExampleSpatial)) = Inl CheckFailed \<and>
   UnregisterListener False 9 ForeignHandle (RegisterAll 9 ExampleThree InitialSubsystem) =
     Inr (UnregisterListenerInternal 7 1 (RegisterAll 9 ExampleThree InitialSubsystem)) \<and>
   map HandleID (ListenersOf (RegisterAll 9 ExampleThree InitialSubsystem) 7) = [1, 2, 3] \<and>
   map HandleID (ListenersOf (UnregisterListenerInternal 7 1 (RegisterAll 9 ExampleThree InitialSubsystem)) 7) = [3, 2]"
proof -
  have a: "ListenersOf (UnregisterListenerInternal 7 1 (RegisterAll 9 ExampleThree InitialSubsystem)) 7 =
           [ExampleEntry 3 3 50, ExampleEntry 2 2 10]"
    by (simp add: ListenersOf_Unregister ExampleThree_Listeners ExampleEntry_def RemoveAtSwap_def)
  show ?thesis
    unfolding a ExampleThree_Listeners
    by (simp add: UnregisterListener_def WUnregisterListener_def ForeignHandle_def Handle_IsValid_def ExampleEntry_def)
qed

lemma UnregisterListenerInternal_unknown:
  assumes "case ListenerMap s t of None \<Rightarrow> True
           | Some L \<Rightarrow> Listeners L \<noteq> [] \<and> (\<forall>e\<in>set (Listeners L). HandleID e \<noteq> h)"
  shows "UnregisterListenerInternal t h s = s"
proof (cases "ListenerMap s t")
  case None
  then show ?thesis by (simp add: UnregisterListenerInternal_def)
next
  case (Some L)
  then have L: "Listeners L \<noteq> []" "\<forall>e\<in>set (Listeners L). HandleID e \<noteq> h"
    using assms by simp_all
  have i: "IndexOfByPredicate (\<lambda>Other. HandleID Other = h) (Listeners L) = None"
    using L(2) by (simp add: IndexOfByPredicate_None)
  have "(ListenerMap s)(t \<mapsto> L) = ListenerMap s"
    using Some by (rule map_upd_triv)
  then show ?thesis
    using Some L(1) i by (simp add: UnregisterListenerInternal_def)
qed

text \<open>
  C9, as amended. An invalid handle (id 0) makes \<open>UnregisterListener\<close> of either router and
  \<open>UpdateRegisterListenerLocation\<close> append one warning to the log and change nothing else;
  so does a handle of another router for \<open>UpdateRegisterListenerLocation\<close>, and a valid
  handle of this router whose id has no spatial info for both operations of the spatial
  router. The global router's \<open>UnregisterListener\<close> leaves the router as it is, without a
  warning, when the id has no entry in the type's list. \<open>UpdateRegisterListenerLocation\<close>
  returns false in these cases and nothing aborts. A valid handle of a different router
  instance makes \<open>UnregisterListener\<close> fail its \<open>check\<close>.
\<close>

theorem C9_invalid_handles_are_no_ops:
  "(\<not> Handle_IsValid H \<longrightarrow>
      UnregisterListener chk this H s = Inr (s\<lparr>Log := Log s @ [''Trying to unregister an invalid Handle.'']\<rparr>) \<and>
      WUnregisterListener chk this H w = Inr (w\<lparr>WLog := WLog w @ [''Trying to unregister an invalid Handle.'']\<rparr>) \<and>
      UpdateRegisterListenerLocation this H P R w =
        (False, w\<lparr>WLog := WLog w @ [''Trying to update location for an invalid Handle.'']\<rparr>)) \<and>
   (Subsystem H \<noteq> Some this \<longrightarrow>
      UpdateRegisterListenerLocation this H P R w =
        (False, w\<lparr>WLog := WLog w @ [''Trying to update location for an invalid Handle.'']\<rparr>)) \<and>
   (Handle_IsValid H \<and> Subsystem H = Some this \<and> HandleToSpatialMap w (ID H) = None \<longrightarrow>
      UpdateRegisterListenerLocation this H P R w =
        (False, w\<lparr>WLog := WLog w @ [''Trying to update location for listener with unknown HandleID'']\<rparr>) \<and>
      WUnregisterListener chk this H w =
        Inr (w\<lparr>WLog := WLog w @ [''Trying to unregister listener with unknown HandleID'']\<rparr>)) \<and>
   (Handle_IsValid H \<and> Subsystem H = Some this \<and>
    (case ListenerMap s (StructType H) of None \<Rightarrow> True
     | Some L \<Rightarrow> Listeners L \<noteq> [] \<and> (\<forall>e\<in>set (Listeners L). HandleID e \<noteq> ID H)) \<longrightarrow>
      UnregisterListener chk this H s = Inr s) \<and>
   (Handle_IsValid H \<and> Subsystem H \<noteq> Some this \<longrightarrow>
      UnregisterListener True this H s = Inl CheckFailed \<and>
      WUnregisterListener True this H w = Inl CheckFailed)"
proof (intro conjI impI)
  assume "\<not> Handle_IsValid H"
  then show "UnregisterListener chk this H s = Inr (s\<lparr>Log := Log s @ [''Trying to unregister an invalid Handle.'']\<rparr>)"
    and "WUnregisterListener chk this H w = Inr (w\<lparr>WLog := WLog w @ [''Trying to unregister an invalid Handle.'']\<rparr>)"
    and "UpdateRegisterListenerLocation this H P R w =
        (False, w\<lparr>WLog := WLog w @ [''Trying to update location for an invalid Handle.'']\<rparr>)"
    by (simp_all add: UnregisterListener_def WUnregisterListener_def UpdateRegisterListenerLocation_def)
next
  assume "Subsystem H \<noteq> Some this"
  then show "UpdateRegisterListenerLocation this H P R w =
        (False, w\<lparr>WLog := WLog w @ [''Trying to update location for an invalid Handle.'']\<rparr>)"
    by (simp add: UpdateRegisterListenerLocation_def)
next
  assume h: "Handle_IsValid H \<and> Subsystem H = Some this \<and> HandleToSpatialMap w (ID H) = None"
  then show "UpdateRegisterListenerLocation this H P R w =
        (False, w\<lparr>WLog := WLog w @ [''Trying to update location for listener with unknown HandleID'']\<rparr>)"
    by (simp add: UpdateRegisterListenerLocation_def)
  show "WUnregisterListener chk this H w =
        Inr (w\<lparr>WLog := WLog w @ [''Trying to unregister listener with unknown HandleID'']\<rparr>)"
    using h by (simp add: WUnregisterListener_def WUnregisterListenerInternal_def)
next
  assume h: "Handle_IsValid H \<and> Subsystem H = Some this \<and>
    (case ListenerMap s (StructType H) of None \<Rightarrow> True
     | Some L \<Rightarrow> Listeners L \<noteq> [] \<and> (\<forall>e\<in>set (Listeners L). HandleID e \<noteq> ID H))"
  then have "UnregisterListenerInternal (StructType H) (ID H) s = s"
    using UnregisterListenerInternal_unknown [where s = s and t = "StructType H" and h = "ID H"] by blast
  then show "UnregisterListener chk this H s = Inr s"
    using h by (simp add: UnregisterListener_def)
next
  assume "Handle_IsValid H \<and> Subsystem H \<noteq> Some this"
  then show "UnregisterListener True this H s = Inl CheckFailed"
    and "WUnregisterListener True this H w = Inl CheckFailed"
    by (simp_all add: UnregisterListener_def WUnregisterListener_def)
qed

theorem C9_invalid_handles_are_no_ops_witness:
  "\<not> Handle_IsValid (DefaultHandle 7) \<and>
   UnregisterListener True 9 (DefaultHandle 7) InitialSubsystem =
     Inr (InitialSubsystem\<lparr>Log := [''Trying to unregister an invalid Handle.'']\<rparr>) \<and>
   UpdateRegisterListenerLocation 9 (DefaultHandle 7) (Point 0 0) 1 InitialWorldSubsystem =
     (False, InitialWorldSubsystem\<lparr>WLog := [''Trying to update location for an invalid Handle.'']\<rparr>) \<and>
   Handle_IsValid ForeignHandle \<and> Subsystem ForeignHandle \<noteq> Some 9 \<and>
   UpdateRegisterListenerLocation 9 ForeignHandle (Point 0 0) 1 InitialWorldSubsystem =
     (False, InitialWorldSubsystem\<lparr>WLog := [''Trying to update location for an invalid Handle.'']\<rparr>) \<and>
   UnregisterListener True 9 ForeignHandle InitialSubsystem = Inl CheckFailed \<and>
   Handle_IsValid UnknownHandle \<and> Subsystem UnknownHandle = Some 9 \<and>
   HandleToSpatialMap InitialWorldSubsystem (ID UnknownHandle) = None \<and>
   WUnregisterListener True 9 UnknownHandle InitialWorldSubsystem =
     Inr (InitialWorldSubsystem\<lparr>WLog := [''Trying to unregister listener with unknown HandleID'']\<rparr>) \<and>
   UnregisterListener True 9 UnknownHandle (RegisterAll 9 ExampleThree InitialSubsystem) =
     Inr (RegisterAll 9 ExampleThree InitialSubsystem)"
proof -
  have i: "\<not> Handle_IsValid (DefaultHandle 7)"
    by (simp add: Handle_IsValid_def DefaultHandle_def)
  have f: "Handle_IsValid ForeignHandle" "Subsystem ForeignHandle \<noteq> Some 9"
    by (simp_all add: Handle_IsValid_def ForeignHandle_def)
  have u: "Handle_IsValid UnknownHandle" "Subsystem UnknownHandle = Some 9"
    "HandleToSpatialMap InitialWorldSubsystem (ID UnknownHandle) = None"
    by (simp_all add: Handle_IsValid_def UnknownHandle_def InitialWorldSubsystem_def)
  have "ListenerMap (RegisterAll 9 ExampleThree InitialSubsystem) 7 \<noteq> None"
    using ExampleThree_Listeners by (auto simp: ListenersOf_def split: option.splits)
  then obtain L where L: "ListenerMap (RegisterAll 9 ExampleThree InitialSubsystem) 7 = Some L" by blast
  then have "Listeners L = [ExampleEntry 1 1 0, ExampleEntry 2 2 10, ExampleEntry 3 3 50]"
    using ExampleThree_Listeners by (simp add: ListenersOf_def)
  then have k: "case ListenerMap (RegisterAll 9 ExampleThree InitialSubsystem) (StructType UnknownHandle) of
        None \<Rightarrow> True
      | Some L \<Rightarrow> Listeners L \<noteq> [] \<and> (\<forall>e\<in>set (Listeners L). HandleID e \<noteq> ID UnknownHandle)"
    using L by (simp add: UnknownHandle_def ExampleEntry_def)
  note a = C9_invalid_handles_are_no_ops [of "DefaultHandle 7" True 9 InitialSubsystem InitialWorldSubsystem "Point 0 0" 1]
  note b = C9_invalid_handles_are_no_ops [of ForeignHandle True 9 InitialSubsystem InitialWorldSubsystem "Point 0 0" 1]
  note c = C9_invalid_handles_are_no_ops [of UnknownHandle True 9 "RegisterAll 9 ExampleThree InitialSubsystem"
      InitialWorldSubsystem "Point 0 0" 1]
  have a1: "UnregisterListener True 9 (DefaultHandle 7) InitialSubsystem =
     Inr (InitialSubsystem\<lparr>Log := [''Trying to unregister an invalid Handle.'']\<rparr>)"
    and a2: "UpdateRegisterListenerLocation 9 (DefaultHandle 7) (Point 0 0) 1 InitialWorldSubsystem =
     (False, InitialWorldSubsystem\<lparr>WLog := [''Trying to update location for an invalid Handle.'']\<rparr>)"
    using a i by (simp_all add: InitialSubsystem_def InitialWorldSubsystem_def)
  have b1: "UpdateRegisterListenerLocation 9 ForeignHandle (Point 0 0) 1 InitialWorldSubsystem =
     (False, InitialWorldSubsystem\<lparr>WLog := [''Trying to update location for an invalid Handle.'']\<rparr>)"
    and b2: "UnregisterListener True 9 ForeignHandle InitialSubsystem = Inl CheckFailed"
    using b f by (simp_all add: InitialWorldSubsystem_def)
  have c1: "WUnregisterListener True 9 UnknownHandle InitialWorldSubsystem =
     Inr (InitialWorldSubsystem\<lparr>WLog := [''Trying to unregister listener with unknown HandleID'']\<rparr>)"
    using c u by (simp add: InitialWorldSubsystem_def)
  have c2: "UnregisterListener True 9 UnknownHandle (RegisterAll 9 ExampleThree InitialSubsystem) =
     Inr (RegisterAll 9 ExampleThree InitialSubsystem)"
    using c u k by blast
  show ?thesis
    using i a1 a2 f b1 b2 u c1 c2 by blast
qed

section \<open>The spatial router: lists of the grid cells\<close>

lemma AddToGrid_sorted:
  "sorted (map WPriority (CellList m g)) \<Longrightarrow> sorted (map WPriority (CellList (AddToGrid E a m) g))"
  by (cases "g = a") (simp_all add: AddToGrid_CellList Insert_sorted [where f = WPriority])

lemma AddToGrids_sorted:
  "sorted (map WPriority (CellList m g)) \<Longrightarrow> sorted (map WPriority (CellList (AddToGrids E G m) g))"
  unfolding AddToGrids_def
proof (induction G arbitrary: m)
  case Nil
  then show ?case by simp
next
  case (Cons a G)
  show ?case
    using Cons.IH [OF AddToGrid_sorted [OF Cons.prems, of E a]] by simp
qed

lemma GridListenersOf_WRegister:
  "GridListenersOf (snd (WRegister this r st)) g =
     CellList (AddToGrids
        \<lparr>WReceivedCallback = sCallback r, WHandleID = int32_incr (fst st), WMatchType = sMatchType r,
         WListenerStructType = sStructType r, WChannel = sChannel r, WPriority = sPriority r,
         ListenPosition = sPosition r, ListenRadius = sRadius r\<rparr>
        (RelevantGridsOf (sPosition r) (sRadius r)) (GridListenerMap (snd st))) g"
  by (simp add: GridListenersOf_def WRegister_def WRegisterListenerInternal_def Let_def)

lemma WRegister_sorted:
  "sorted (map WPriority (GridListenersOf (snd st) g)) \<Longrightarrow>
   sorted (map WPriority (GridListenersOf (snd (WRegister this r st)) g))"
  unfolding GridListenersOf_WRegister
  by (rule AddToGrids_sorted) (simp add: GridListenersOf_def)

lemma WRegisterAll_sorted:
  "sorted (map WPriority (GridListenersOf (snd st) g)) \<Longrightarrow>
   sorted (map WPriority (GridListenersOf (snd (WRegisterAll this regs st)) g))"
  unfolding WRegisterAll_def
proof (induction regs arbitrary: st)
  case Nil
  then show ?case by simp
next
  case (Cons r regs)
  show ?case
    using Cons.IH [OF WRegister_sorted [OF Cons.prems, of this r]] by simp
qed

lemma AddToGrids_stable:
  assumes "distinct G"
  shows "filter (\<lambda>x. WPriority x = k) (CellList (AddToGrids E G m) g) =
         filter (\<lambda>x. WPriority x = k) (CellList m g) @ (if g \<in> set G \<and> WPriority E = k then [E] else [])"
  unfolding AddToGrids_CellList [OF assms]
  using Insert_stable [where f = WPriority and e = E and k = k and L = "CellList m g"]
  by auto

lemma WRegister_stable:
  assumes "InRange (sPosition r) (sRadius r)"
  shows "map WEntryRegistration (filter (\<lambda>x. WPriority x = k) (GridListenersOf (snd (WRegister this r st)) g)) =
         map WEntryRegistration (filter (\<lambda>x. WPriority x = k) (GridListenersOf (snd st) g)) @
         filter (\<lambda>r. g \<in> set (RelevantGridsOf (sPosition r) (sRadius r)) \<and> sPriority r = k) [r]"
  unfolding GridListenersOf_WRegister AddToGrids_stable [OF RelevantGridsOf_distinct [OF assms]]
  by (simp add: GridListenersOf_def WEntryRegistration_def)

lemma WRegisterAll_stable:
  "\<forall>r\<in>set regs. InRange (sPosition r) (sRadius r) \<Longrightarrow>
   map WEntryRegistration (filter (\<lambda>x. WPriority x = k) (GridListenersOf (snd (WRegisterAll this regs st)) g)) =
   map WEntryRegistration (filter (\<lambda>x. WPriority x = k) (GridListenersOf (snd st) g)) @
   filter (\<lambda>r. g \<in> set (RelevantGridsOf (sPosition r) (sRadius r)) \<and> sPriority r = k) regs"
  unfolding WRegisterAll_def
proof (induction regs arbitrary: st)
  case Nil
  then show ?case by simp
next
  case (Cons r regs)
  have r: "InRange (sPosition r) (sRadius r)" and rest: "\<forall>r\<in>set regs. InRange (sPosition r) (sRadius r)"
    using Cons.prems by simp_all
  show ?case
    using Cons.IH [OF rest, of "WRegister this r st"] WRegister_stable [OF r, of k this st g]
    by simp
qed

lemma WRegister_id: "fst (WRegister this r st) = int32_incr (fst st)"
  by (simp add: WRegister_def WRegisterListenerInternal_def Let_def)

lemma WRegister_cell:
  assumes "InRange (sPosition r) (sRadius r)" "g \<in> set (RelevantGridsOf (sPosition r) (sRadius r))"
  shows "GridListenersOf (snd (WRegister this r st)) g =
         Insert \<lparr>WReceivedCallback = sCallback r, WHandleID = int32_incr (fst st), WMatchType = sMatchType r,
                 WListenerStructType = sStructType r, WChannel = sChannel r, WPriority = sPriority r,
                 ListenPosition = sPosition r, ListenRadius = sRadius r\<rparr>
           (FindInsertIndex (sPriority r) (map WPriority (GridListenersOf (snd st) g)))
           (GridListenersOf (snd st) g)"
  unfolding GridListenersOf_WRegister AddToGrids_CellList [OF RelevantGridsOf_distinct [OF assms(1)]]
  using assms(2) by (simp add: GridListenersOf_def)

lemma Example_cell: "GetGridID (Point 30 40) \<in> set (RelevantGridsOf (Point 0 0) 100)"
  by (rule RelevantGridsOf_covers) (simp_all add: DistSquared_def Point_def)

lemma ExampleSpatial_Listeners:
  "GridListenersOf (snd (WRegisterAll 9 ExampleSpatialRegistrations (0, InitialWorldSubsystem)))
     (GetGridID (Point 30 40)) =
   [ExampleSpatialEntry 4 4 0, ExampleSpatialEntry 2 2 10, ExampleSpatialEntry 1 1 50, ExampleSpatialEntry 3 3 50]"
proof -
  let ?g = "GetGridID (Point 30 40)"
  have step: "GridListenersOf (snd (WRegister 9
        \<lparr>sChannel = [''A'', ''B''], sCallback = cb, sStructType = 7, sMatchType = ExactMatch,
         sPriority = p, sPosition = Point 0 0, sRadius = 100\<rparr> st)) ?g =
      Insert (ExampleSpatialEntry cb (int32_incr (fst st)) p)
        (FindInsertIndex p (map WPriority (GridListenersOf (snd st) ?g))) (GridListenersOf (snd st) ?g)" for cb p st
    using WRegister_cell [of "\<lparr>sChannel = [''A'', ''B''], sCallback = cb, sStructType = 7, sMatchType = ExactMatch,
         sPriority = p, sPosition = Point 0 0, sRadius = 100\<rparr>" ?g 9 st] InRange_examples(1) Example_cell
    by (simp add: ExampleSpatialEntry_def)
  have init: "GridListenersOf InitialWorldSubsystem g = []" for g
    by (simp add: GridListenersOf_def CellList_def InitialWorldSubsystem_def)
  have prio: "WPriority (ExampleSpatialEntry cb h p) = p" for cb h p
    by (simp add: ExampleSpatialEntry_def)
  define s1 where "s1 = WRegister 9 \<lparr>sChannel = [''A'', ''B''], sCallback = 1, sStructType = 7,
      sMatchType = ExactMatch, sPriority = 50, sPosition = Point 0 0, sRadius = 100\<rparr> (0, InitialWorldSubsystem)"
  define s2 where "s2 = WRegister 9 \<lparr>sChannel = [''A'', ''B''], sCallback = 2, sStructType = 7,
      sMatchType = ExactMatch, sPriority = 10, sPosition = Point 0 0, sRadius = 100\<rparr> s1"
  define s3 where "s3 = WRegister 9 \<lparr>sChannel = [''A'', ''B''], sCallback = 3, sStructType = 7,
      sMatchType = ExactMatch, sPriority = 50, sPosition = Point 0 0, sRadius = 100\<rparr> s2"
  define s4 where "s4 = WRegister 9 \<lparr>sChannel = [''A'', ''B''], sCallback = 4, sStructType = 7,
      sMatchType = ExactMatch, sPriority = 0, sPosition = Point 0 0, sRadius = 100\<rparr> s3"
  have i1: "fst s1 = 1" unfolding s1_def by (simp add: WRegister_id int32_incr_def)
  have i2: "fst s2 = 2" unfolding s2_def by (simp add: WRegister_id int32_incr_def i1)
  have i3: "fst s3 = 3" unfolding s3_def by (simp add: WRegister_id int32_incr_def i2)
  have l1: "GridListenersOf (snd s1) ?g = [ExampleSpatialEntry 1 1 50]"
    unfolding s1_def step by (simp add: init int32_incr_def FindInsertIndex_def Insert_def)
  have l2: "GridListenersOf (snd s2) ?g = [ExampleSpatialEntry 2 2 10, ExampleSpatialEntry 1 1 50]"
    unfolding s2_def step l1 i1 by (simp add: prio int32_incr_def FindInsertIndex_def Insert_def)
  have l3: "GridListenersOf (snd s3) ?g =
      [ExampleSpatialEntry 2 2 10, ExampleSpatialEntry 1 1 50, ExampleSpatialEntry 3 3 50]"
    unfolding s3_def step l2 i2 by (simp add: prio int32_incr_def FindInsertIndex_def Insert_def)
  have l4: "GridListenersOf (snd s4) ?g =
      [ExampleSpatialEntry 4 4 0, ExampleSpatialEntry 2 2 10, ExampleSpatialEntry 1 1 50, ExampleSpatialEntry 3 3 50]"
    unfolding s4_def step l3 i3 by (simp add: prio int32_incr_def FindInsertIndex_def Insert_def)
  have "WRegisterAll 9 ExampleSpatialRegistrations (0, InitialWorldSubsystem) = s4"
    by (simp add: WRegisterAll_def ExampleSpatialRegistrations_def s1_def s2_def s3_def s4_def)
  then show ?thesis using l4 by simp
qed

lemma WDispatchLoop_prefix:
  "prefix (fst (WDispatchLoop cbs live ch st Q L s)) (filter (WPasses live ch st Q) L)"
proof (induction L arbitrary: s)
  case Nil
  then show ?case by simp
next
  case (Cons e L)
  show ?case
  proof (cases "WPasses live ch st Q e")
    case True
    then show ?thesis
      using Cons.IH [of "cbs (WReceivedCallback e) ch st s"]
      by (auto simp: WPasses_def Let_def case_prod_beta)
  next
    case False
    then show ?thesis
      using Cons.IH [of s] Cons.IH [of "WUnregisterListenerInternal st (WHandleID e)
                (s\<lparr>WLog := WLog s @ [''Listener struct type has gone invalid. Removing listener from list'']\<rparr>)"]
      by (auto simp: WPasses_def)
  qed
qed

lemma WBroadcast_prefix:
  "prefix (Invoked (WBroadcastMessageInternal cbs live ch st Q s))
          (filter (WPasses live ch st Q) (GridListenersOf s (GetGridID Q)))"
  using WDispatchLoop_prefix [of cbs live ch st Q _ "s\<lparr>WBroadcastResultCache := Reset (WBroadcastResultCache s)\<rparr>"]
  by (auto simp: WBroadcastMessageInternal_def Invoked_def GridListenersOf_def CellList_def Let_def case_prod_beta
      split: option.splits)

lemma WBroadcast_all:
  "WNeverInterrupts cbs \<Longrightarrow>
   Invoked (WBroadcastMessageInternal cbs live ch st Q s) =
     filter (WPasses live ch st Q) (GridListenersOf s (GetGridID Q))"
  unfolding GridListenersOf_def by (rule WBroadcast_NeverInterrupts)

lemma ExampleSpatialEntry_WPasses:
  "live 7 \<Longrightarrow> WPasses live [''A'', ''B''] 7 (Point 30 40) (ExampleSpatialEntry cb h p)"
  by (simp add: WPasses_def ExampleSpatialEntry_def WTagMatches_def MatchesTagExact_def DistSquared_def Point_def)

lemma ExampleSpatial_Broadcast:
  assumes "WNeverInterrupts cbs" "live 7"
  shows "map WReceivedCallback (Invoked (WBroadcastMessageInternal cbs live [''A'', ''B''] 7 (Point 30 40)
           (snd (WRegisterAll 9 ExampleSpatialRegistrations (0, InitialWorldSubsystem))))) = [4, 2, 1, 3]"
  unfolding WBroadcast_all [OF assms(1)] ExampleSpatial_Listeners
  by (simp add: ExampleSpatialEntry_WPasses [where live = live, OF assms(2)]) (simp add: ExampleSpatialEntry_def)

lemma WPasses_rule:
  "WPasses live ch st Q x \<Longrightarrow>
   (WMatchType x = ExactMatch \<and> ch = WChannel x) \<or> (WMatchType x = PartialMatch \<and> prefix (WChannel x) ch)"
  by (cases "WMatchType x") (auto simp: WPasses_def WTagMatches_def MatchesTag_def MatchesTagExact_def)

lemma rule_WPasses:
  "live (WListenerStructType x) \<Longrightarrow> WListenerStructType x = st \<Longrightarrow>
   DistSquared Q (ListenPosition x) \<le> ListenRadius x * ListenRadius x \<Longrightarrow>
   WPasses live ch st Q x =
     (case WMatchType x of ExactMatch \<Rightarrow> ch = WChannel x | PartialMatch \<Rightarrow> prefix (WChannel x) ch)"
  by (cases "WMatchType x") (auto simp: WPasses_def WTagMatches_def MatchesTag_def MatchesTagExact_def)

lemma WBroadcast_rule:
  "x \<in> set (Invoked (WBroadcastMessageInternal cbs live ch st Q s)) \<Longrightarrow>
   (WMatchType x = ExactMatch \<and> ch = WChannel x) \<or> (WMatchType x = PartialMatch \<and> prefix (WChannel x) ch)"
proof -
  assume "x \<in> set (Invoked (WBroadcastMessageInternal cbs live ch st Q s))"
  then have "x \<in> set (filter (WPasses live ch st Q) (GridListenersOf s (GetGridID Q)))"
    using WBroadcast_prefix [of cbs live ch st Q s] set_mono_prefix by blast
  then have "WPasses live ch st Q x" by simp
  then show ?thesis by (rule WPasses_rule)
qed

lemma WBroadcast_invoked_iff:
  assumes "WNeverInterrupts cbs" "e \<in> set (GridListenersOf s (GetGridID Q))" "live st"
    "WListenerStructType e = st" "DistSquared Q (ListenPosition e) \<le> ListenRadius e * ListenRadius e"
  shows "e \<in> set (Invoked (WBroadcastMessageInternal cbs live ch st Q s)) \<longleftrightarrow>
         (case WMatchType e of ExactMatch \<Rightarrow> ch = WChannel e | PartialMatch \<Rightarrow> prefix (WChannel e) ch)"
  unfolding WBroadcast_all [OF assms(1)]
  using assms(2-5) rule_WPasses [of live e st Q ch] by auto

lemma UnregisterFromGrid_step:
  "\<exists>lg'. UnregisterFromGrid h a (m, c, lg) =
          (fst (RemoveFromGrid h a (m, c)), snd (RemoveFromGrid h a (m, c)), lg')"
  by (simp add: UnregisterFromGrid_def RemoveFromGrid_def Let_def split: option.splits)

lemma UnregisterFromGrid_fold:
  "\<exists>lg'. fold (UnregisterFromGrid h) Gr (m, c, lg) =
          (fst (fold (RemoveFromGrid h) Gr (m, c)), snd (fold (RemoveFromGrid h) Gr (m, c)), lg')"
proof (induction Gr arbitrary: m c lg)
  case Nil
  then show ?case by simp
next
  case (Cons a Gr)
  obtain lg1 where s: "UnregisterFromGrid h a (m, c, lg) =
          (fst (RemoveFromGrid h a (m, c)), snd (RemoveFromGrid h a (m, c)), lg1)"
    using UnregisterFromGrid_step by blast
  show ?case
    using Cons.IH [of "fst (RemoveFromGrid h a (m, c))" "snd (RemoveFromGrid h a (m, c))" lg1]
    by (simp add: s)
qed

lemma WUnregister_cells:
  assumes "HandleToSpatialMap s h = Some info"
  shows "GridListenersOf (WUnregisterListenerInternal st h s) g =
           (if g \<in> set (RelevantGridsOf (InfoListenPosition info) (InfoListenRadius info))
            then filter (\<lambda>Listener. WHandleID Listener \<noteq> h) (GridListenersOf s g)
            else GridListenersOf s g)"
proof -
  let ?G = "RelevantGridsOf (InfoListenPosition info) (InfoListenRadius info)"
  obtain m1 c1 where rem: "fold (RemoveFromGrid h) ?G (GridListenerMap s, []) = (m1, c1)"
    by (cases "fold (RemoveFromGrid h) ?G (GridListenerMap s, [])") auto
  obtain lg1 where un: "fold (UnregisterFromGrid h) ?G (GridListenerMap s, [], WLog s) = (m1, c1, lg1)"
    using UnregisterFromGrid_fold [of h ?G "GridListenerMap s" "[]" "WLog s"] by (auto simp: rem)
  have m1: "CellList m1 g =
      (if g \<in> set ?G then filter (\<lambda>Listener. WHandleID Listener \<noteq> h) (CellList (GridListenerMap s) g)
       else CellList (GridListenerMap s) g)"
    using conjunct1 [OF RemoveFromGrid_fold [OF rem]] by blast
  have c1: "\<forall>x\<in>set c1. CellList m1 x = []"
    using conjunct2 [OF RemoveFromGrid_fold [OF rem]] by simp
  have "GridListenerMap (WUnregisterListenerInternal st h s) = RemoveGrids c1 m1"
    using assms un by (simp add: WUnregisterListenerInternal_def Let_def)
  then show ?thesis
    unfolding GridListenersOf_def using RemoveGrids_CellList [OF c1, of g] m1 by simp
qed

lemma WUnregister_removes:
  assumes "HandleToSpatialMap s h = Some info"
      and "\<forall>g. g \<notin> set (RelevantGridsOf (InfoListenPosition info) (InfoListenRadius info)) \<longrightarrow>
               CellEntries (GridListenerMap s) g h = []"
  shows "GridListenersOf (WUnregisterListenerInternal st h s) g =
           filter (\<lambda>Listener. WHandleID Listener \<noteq> h) (GridListenersOf s g)"
proof (cases "g \<in> set (RelevantGridsOf (InfoListenPosition info) (InfoListenRadius info))")
  case True
  then show ?thesis by (simp add: WUnregister_cells [OF assms(1)])
next
  case False
  then have "filter (\<lambda>Listener. WHandleID Listener = h) (GridListenersOf s g) = []"
    using assms(2) by (simp add: CellEntries_def GridListenersOf_def)
  then have "\<forall>x\<in>set (GridListenersOf s g). WHandleID x \<noteq> h"
    by (simp add: filter_empty_conv)
  then have "filter (\<lambda>Listener. WHandleID Listener \<noteq> h) (GridListenersOf s g) = GridListenersOf s g"
    by simp
  then show ?thesis using False by (simp add: WUnregister_cells [OF assms(1)])
qed

lemma WUnregister_info:
  "HandleToSpatialMap s h = Some info \<Longrightarrow> HandleToSpatialMap (WUnregisterListenerInternal st h s) h = None"
  by (simp add: WUnregisterListenerInternal_def Let_def case_prod_beta)

lemma WHandle_Unregister_cases:
  "WHandle_Unregister chk routers h =
     (case Subsystem h of
        None \<Rightarrow> Inr (routers, h)
      | Some a \<Rightarrow>
          (case routers a of
             None \<Rightarrow> Inr (routers, h)
           | Some s \<Rightarrow>
               Inr (routers(a \<mapsto>
                      (if Handle_IsValid h then WUnregisterListenerInternal (StructType h) (ID h) s
                       else s\<lparr>WLog := WLog s @ [''Trying to unregister an invalid Handle.'']\<rparr>)),
                    ResetHandle h)))"
  by (simp add: WHandle_Unregister_def WUnregisterListener_def ResetHandle_def split: option.splits)

lemma WHandle_Unregister_ResetHandle:
  "WHandle_Unregister chk routers (ResetHandle h) = Inr (routers, ResetHandle h)"
  by (simp add: WHandle_Unregister_def ResetHandle_def)

lemma WHandle_Unregister_twice:
  "\<exists>routers' h'. WHandle_Unregister chk routers h = Inr (routers', h') \<and>
      WHandle_Unregister chk routers' h' = Inr (routers', h')"
proof (cases "Subsystem h")
  case None
  then show ?thesis by (simp add: WHandle_Unregister_def)
next
  case (Some a)
  show ?thesis
  proof (cases "routers a")
    case None
    then show ?thesis using Some by (simp add: WHandle_Unregister_def)
  next
    case s: (Some s)
    have "\<exists>routers'. WHandle_Unregister chk routers h = Inr (routers', ResetHandle h)"
      using Some s by (simp add: WHandle_Unregister_cases)
    then obtain routers' where r: "WHandle_Unregister chk routers h = Inr (routers', ResetHandle h)" ..
    show ?thesis
      by (intro exI conjI) (rule r, rule WHandle_Unregister_ResetHandle)
  qed
qed

lemma Handle_Unregister_twice:
  "\<exists>routers' h'. Handle_Unregister chk routers h = Inr (routers', h') \<and>
      Handle_Unregister chk routers' h' = Inr (routers', h')"
proof (cases "Subsystem h")
  case None
  then show ?thesis by (simp add: Handle_Unregister_def)
next
  case (Some a)
  show ?thesis
  proof (cases "routers a")
    case None
    then show ?thesis using Some by (simp add: Handle_Unregister_def)
  next
    case s: (Some s)
    have "\<exists>routers'. Handle_Unregister chk routers h = Inr (routers', ResetHandle h)"
      using Some s by (simp add: Handle_Unregister_cases)
    then obtain routers' where r: "Handle_Unregister chk routers h = Inr (routers', ResetHandle h)" ..
    show ?thesis
      by (intro exI conjI) (rule r, rule Handle_Unregister_ResetHandle)
  qed
qed

lemma WBroadcast_not_removed:
  assumes "\<forall>g. GridListenersOf s g = filter (\<lambda>Listener. WHandleID Listener \<noteq> h) (GridListenersOf s0 g)"
  shows "\<forall>x\<in>set (Invoked (WBroadcastMessageInternal cbs live ch st Q s)). WHandleID x \<noteq> h"
proof
  fix x
  assume "x \<in> set (Invoked (WBroadcastMessageInternal cbs live ch st Q s))"
  then have "x \<in> set (filter (WPasses live ch st Q) (GridListenersOf s (GetGridID Q)))"
    using WBroadcast_prefix [of cbs live ch st Q s] set_mono_prefix by blast
  then have "x \<in> set (GridListenersOf s (GetGridID Q))" by simp
  then show "WHandleID x \<noteq> h" using assms by simp
qed

lemma Broadcast_not_removed:
  assumes "set (ListenersOf s t) = {x \<in> set (ListenersOf s0 t). HandleID x \<noteq> h}"
  shows "\<forall>x\<in>set (Invoked (BroadcastMessageInternal cbs live ch st tgt s)).
           \<not> (ListenerStructType x = t \<and> HandleID x = h)"
proof
  fix x
  assume "x \<in> set (Invoked (BroadcastMessageInternal cbs live ch st tgt s))"
  then have "x \<in> set (filter (Passes live ch st tgt) (ListenersOf s st))"
    using Broadcast_prefix [of cbs live ch st tgt s] set_mono_prefix by blast
  then have x: "x \<in> set (ListenersOf s st)" "st = ListenerStructType x"
    by (auto simp: Passes_def)
  show "\<not> (ListenerStructType x = t \<and> HandleID x = h)"
  proof (rule notI)
    assume c: "ListenerStructType x = t \<and> HandleID x = h"
    have "x \<in> set (ListenersOf s t)"
      using x c by simp
    then have "HandleID x \<noteq> h"
      unfolding assms by simp
    then show False using c by simp
  qed
qed

lemma WRegister_info:
  "HandleToSpatialMap (snd (WRegister this r st)) =
     (HandleToSpatialMap (snd st))(int32_incr (fst st) \<mapsto>
        \<lparr>InfoListenPosition = sPosition r, InfoListenRadius = sRadius r\<rparr>)"
  by (simp add: WRegister_def WRegisterListenerInternal_def Let_def)

lemma WRegister_other_cell:
  assumes "InRange (sPosition r) (sRadius r)" "g \<notin> set (RelevantGridsOf (sPosition r) (sRadius r))"
  shows "GridListenersOf (snd (WRegister this r st)) g = GridListenersOf (snd st) g"
  unfolding GridListenersOf_WRegister AddToGrids_CellList [OF RelevantGridsOf_distinct [OF assms(1)]]
  using assms(2) by (simp add: GridListenersOf_def)

lemma GridListenersOf_Initial: "GridListenersOf InitialWorldSubsystem g = []"
  by (simp add: GridListenersOf_def CellList_def InitialWorldSubsystem_def)

lemma ExampleSpatialState_Listeners:
  "GridListenersOf ExampleSpatialState (GetGridID (Point 30 40)) =
   [ExampleSpatialEntry 4 4 0, ExampleSpatialEntry 2 2 10, ExampleSpatialEntry 1 1 50, ExampleSpatialEntry 3 3 50]"
  unfolding ExampleSpatialState_def by (rule ExampleSpatial_Listeners)

lemma ExampleSpatialState_info:
  "HandleToSpatialMap ExampleSpatialState 2 = Some \<lparr>InfoListenPosition = Point 0 0, InfoListenRadius = 100\<rparr>"
  "HandleToSpatialMap ExampleSpatialState 3 = Some \<lparr>InfoListenPosition = Point 0 0, InfoListenRadius = 100\<rparr>"
  by (simp_all add: ExampleSpatialState_def WRegisterAll_def ExampleSpatialRegistrations_def WRegister_info
      WRegister_id int32_incr_def)

lemma ExampleSpatialState_elsewhere:
  "g \<notin> set (RelevantGridsOf (Point 0 0) 100) \<Longrightarrow> GridListenersOf ExampleSpatialState g = []"
  by (simp add: ExampleSpatialState_def WRegisterAll_def ExampleSpatialRegistrations_def WRegister_other_cell
      InRange_examples GridListenersOf_Initial)

lemma ExampleSpatialState_Unregister:
  "map WHandleID (GridListenersOf (WUnregisterListenerInternal 7 2 ExampleSpatialState) (GetGridID (Point 30 40))) =
     [4, 1, 3]"
  "map WHandleID (GridListenersOf (WUnregisterListenerInternal 7 3 ExampleSpatialState) (GetGridID (Point 30 40))) =
     [4, 2, 1]"
  unfolding WUnregister_cells [OF ExampleSpatialState_info(1)] WUnregister_cells [OF ExampleSpatialState_info(2)]
    ExampleSpatialState_Listeners
  using Example_cell by (simp_all add: ExampleSpatialEntry_def)

lemma ExampleSpatialListener_Listeners:
  "GridListenersOf (snd (WRegister 9 (ExampleSpatialListener m) (0, InitialWorldSubsystem)))
     (GetGridID (Point 30 40)) = [ExampleSpatialListenerEntry m]"
proof -
  have "GridListenersOf (snd (WRegister 9 (ExampleSpatialListener m) (0, InitialWorldSubsystem)))
     (GetGridID (Point 30 40)) =
     Insert (ExampleSpatialListenerEntry m) (FindInsertIndex 50 []) []"
    using WRegister_cell [of "ExampleSpatialListener m" "GetGridID (Point 30 40)" 9 "(0, InitialWorldSubsystem)"]
      InRange_examples(1) Example_cell
    by (simp add: ExampleSpatialListener_def ExampleSpatialListenerEntry_def GridListenersOf_Initial int32_incr_def)
  then show ?thesis
    by (simp add: FindInsertIndex_def Insert_def)
qed

lemma WNeverInterrupts_WOnlyCallback_Unregister:
  "WNeverInterrupts (WOnlyCallback k (WUnregisterListenerInternal t h))"
  by (simp add: WNeverInterrupts_def WOnlyCallback_def WCache_Unregister)

section \<open>Properties of both routers\<close>

text \<open>
  C1. Registration is a priority-stable insert, in the global router and in every grid
  cell of the spatial router. Whatever the router and the message type (the cell): if the
  list is sorted ascending by priority before a sequence of registrations (as the empty
  list of a fresh router is), it is sorted after it; and for every priority, the entries
  of that priority are the ones that were there before, followed by the new registrations
  of that priority (those whose circle covers the cell) in the order of the calls. Hence
  listeners registered with the priorities 50, 10, 50, 0 are invoked by a broadcast that
  matches all of them in the order 0, 10, 50 (first), 50 (second).
\<close>

theorem C1_priority_stable_registration:
  "(sorted (map Priority (ListenersOf s t)) \<longrightarrow>
      sorted (map Priority (ListenersOf (RegisterAll this regs s) t))) \<and>
   (\<forall>k. map EntryRegistration (filter (\<lambda>x. Priority x = k) (ListenersOf (RegisterAll this regs s) t)) =
        map EntryRegistration (filter (\<lambda>x. Priority x = k) (ListenersOf s t)) @
        filter (\<lambda>r. rStructType r = t \<and> rPriority r = k) regs) \<and>
   (NeverInterrupts cbs \<and> live 7 \<longrightarrow>
      map ReceivedCallback (Invoked (BroadcastMessageInternal cbs live [''A'', ''B''] 7 tgt
        (RegisterAll 9 ExampleRegistrations InitialSubsystem))) = [4, 2, 1, 3] \<and>
      map rPriority ExampleRegistrations = [50, 10, 50, 0] \<and>
      map rCallback ExampleRegistrations = [1, 2, 3, 4]) \<and>
   (sorted (map WPriority (GridListenersOf (snd ws) g)) \<longrightarrow>
      sorted (map WPriority (GridListenersOf (snd (WRegisterAll this wregs ws)) g))) \<and>
   ((\<forall>r\<in>set wregs. InRange (sPosition r) (sRadius r)) \<longrightarrow>
      (\<forall>k. map WEntryRegistration
              (filter (\<lambda>x. WPriority x = k) (GridListenersOf (snd (WRegisterAll this wregs ws)) g)) =
            map WEntryRegistration (filter (\<lambda>x. WPriority x = k) (GridListenersOf (snd ws) g)) @
            filter (\<lambda>r. g \<in> set (RelevantGridsOf (sPosition r) (sRadius r)) \<and> sPriority r = k) wregs)) \<and>
   (WNeverInterrupts wcbs \<and> live 7 \<longrightarrow>
      map WReceivedCallback (Invoked (WBroadcastMessageInternal wcbs live [''A'', ''B''] 7 (Point 30 40)
        (snd (WRegisterAll 9 ExampleSpatialRegistrations (0, InitialWorldSubsystem))))) = [4, 2, 1, 3] \<and>
      map sPriority ExampleSpatialRegistrations = [50, 10, 50, 0] \<and>
      map sCallback ExampleSpatialRegistrations = [1, 2, 3, 4])"
proof (intro conjI allI impI)
  assume "sorted (map Priority (ListenersOf s t))"
  then show "sorted (map Priority (ListenersOf (RegisterAll this regs s) t))"
    by (rule RegisterAll_sorted)
next
  fix k
  show "map EntryRegistration (filter (\<lambda>x. Priority x = k) (ListenersOf (RegisterAll this regs s) t)) =
        map EntryRegistration (filter (\<lambda>x. Priority x = k) (ListenersOf s t)) @
        filter (\<lambda>r. rStructType r = t \<and> rPriority r = k) regs"
    by (rule RegisterAll_stable)
next
  assume "NeverInterrupts cbs \<and> live 7"
  then show "map ReceivedCallback (Invoked (BroadcastMessageInternal cbs live [''A'', ''B''] 7 tgt
        (RegisterAll 9 ExampleRegistrations InitialSubsystem))) = [4, 2, 1, 3]"
    using Example_Broadcast by blast
next
  show "map rPriority ExampleRegistrations = [50, 10, 50, 0]"
    by (simp add: ExampleRegistrations_def)
next
  show "map rCallback ExampleRegistrations = [1, 2, 3, 4]"
    by (simp add: ExampleRegistrations_def)
next
  assume "sorted (map WPriority (GridListenersOf (snd ws) g))"
  then show "sorted (map WPriority (GridListenersOf (snd (WRegisterAll this wregs ws)) g))"
    by (rule WRegisterAll_sorted)
next
  fix k
  assume "\<forall>r\<in>set wregs. InRange (sPosition r) (sRadius r)"
  then show "map WEntryRegistration
              (filter (\<lambda>x. WPriority x = k) (GridListenersOf (snd (WRegisterAll this wregs ws)) g)) =
            map WEntryRegistration (filter (\<lambda>x. WPriority x = k) (GridListenersOf (snd ws) g)) @
            filter (\<lambda>r. g \<in> set (RelevantGridsOf (sPosition r) (sRadius r)) \<and> sPriority r = k) wregs"
    by (rule WRegisterAll_stable)
next
  assume "WNeverInterrupts wcbs \<and> live 7"
  then show "map WReceivedCallback (Invoked (WBroadcastMessageInternal wcbs live [''A'', ''B''] 7 (Point 30 40)
        (snd (WRegisterAll 9 ExampleSpatialRegistrations (0, InitialWorldSubsystem))))) = [4, 2, 1, 3]"
    using ExampleSpatial_Broadcast by blast
next
  show "map sPriority ExampleSpatialRegistrations = [50, 10, 50, 0]"
    by (simp add: ExampleSpatialRegistrations_def)
next
  show "map sCallback ExampleSpatialRegistrations = [1, 2, 3, 4]"
    by (simp add: ExampleSpatialRegistrations_def)
qed

theorem C1_priority_stable_registration_witness:
  "sorted (map Priority (ListenersOf InitialSubsystem 7)) \<and>
   map Priority (ListenersOf (RegisterAll 9 ExampleRegistrations InitialSubsystem) 7) = [0, 10, 50, 50] \<and>
   sorted (map Priority (ListenersOf (RegisterAll 9 ExampleRegistrations InitialSubsystem) 7)) \<and>
   map rCallback (filter (\<lambda>r. rStructType r = 7 \<and> rPriority r = 50) ExampleRegistrations) = [1, 3] \<and>
   map ReceivedCallback (filter (\<lambda>x. Priority x = 50)
     (ListenersOf (RegisterAll 9 ExampleRegistrations InitialSubsystem) 7)) = [1, 3] \<and>
   NeverInterrupts (\<lambda>k ch st s. s) \<and>
   map ReceivedCallback (Invoked (BroadcastMessageInternal (\<lambda>k ch st s. s) (\<lambda>t. True) [''A'', ''B''] 7 None
        (RegisterAll 9 ExampleRegistrations InitialSubsystem))) = [4, 2, 1, 3] \<and>
   sorted (map WPriority (GridListenersOf InitialWorldSubsystem (GetGridID (Point 30 40)))) \<and>
   set (map (\<lambda>r. (sPosition r, sRadius r)) ExampleSpatialRegistrations) = {(Point 0 0, 100)} \<and>
   InRange (Point 0 0) 100 \<and>
   GetGridID (Point 30 40) \<in> set (RelevantGridsOf (Point 0 0) 100) \<and>
   sorted (map WPriority (GridListenersOf
     (snd (WRegisterAll 9 ExampleSpatialRegistrations (0, InitialWorldSubsystem))) (GetGridID (Point 30 40)))) \<and>
   map sCallback (map WEntryRegistration (filter (\<lambda>x. WPriority x = 50) (GridListenersOf
     (snd (WRegisterAll 9 ExampleSpatialRegistrations (0, InitialWorldSubsystem))) (GetGridID (Point 30 40))))) =
     [1, 3] \<and>
   WNeverInterrupts (\<lambda>k ch st s. s) \<and>
   map WReceivedCallback (Invoked (WBroadcastMessageInternal (\<lambda>k ch st s. s) (\<lambda>t. True) [''A'', ''B''] 7
        (Point 30 40) (snd (WRegisterAll 9 ExampleSpatialRegistrations (0, InitialWorldSubsystem))))) = [4, 2, 1, 3]"
proof -
  let ?g = "GetGridID (Point 30 40)"
  let ?ws = "(0::int, InitialWorldSubsystem)"
  have s0: "sorted (map Priority (ListenersOf InitialSubsystem 7))"
    by (simp add: ListenersOf_def InitialSubsystem_def)
  have w0: "sorted (map WPriority (GridListenersOf (snd ?ws) ?g))"
    by (simp add: GridListenersOf_Initial)
  have w0': "sorted (map WPriority (GridListenersOf InitialWorldSubsystem ?g))"
    by (simp add: GridListenersOf_Initial)
  have pr: "set (map (\<lambda>r. (sPosition r, sRadius r)) ExampleSpatialRegistrations) = {(Point 0 0, 100)}"
    by (simp add: ExampleSpatialRegistrations_def)
  have rng: "\<forall>r\<in>set ExampleSpatialRegistrations. InRange (sPosition r) (sRadius r)"
    using InRange_examples(1) by (simp add: ExampleSpatialRegistrations_def)
  note inst = C1_priority_stable_registration [of InitialSubsystem 7 9 ExampleRegistrations
      "\<lambda>k ch st s. s" "\<lambda>t. True" None ?ws ?g ExampleSpatialRegistrations "\<lambda>k ch st s. s"]
  have a: "sorted (map Priority (ListenersOf (RegisterAll 9 ExampleRegistrations InitialSubsystem) 7))"
    using inst s0 by blast
  have b: "map ReceivedCallback (Invoked (BroadcastMessageInternal (\<lambda>k ch st s. s) (\<lambda>t. True) [''A'', ''B''] 7 None
        (RegisterAll 9 ExampleRegistrations InitialSubsystem))) = [4, 2, 1, 3]"
    using inst NeverInterrupts_id by blast
  have c: "map Priority (ListenersOf (RegisterAll 9 ExampleRegistrations InitialSubsystem) 7) = [0, 10, 50, 50]"
    by (simp add: Example_Listeners_full)
  have d: "map rCallback (filter (\<lambda>r. rStructType r = 7 \<and> rPriority r = 50) ExampleRegistrations) = [1, 3]"
    by (simp add: ExampleRegistrations_def)
  have e: "map ReceivedCallback (filter (\<lambda>x. Priority x = 50)
     (ListenersOf (RegisterAll 9 ExampleRegistrations InitialSubsystem) 7)) = [1, 3]"
    by (simp add: Example_Listeners_full)
  have wa: "sorted (map WPriority (GridListenersOf (snd (WRegisterAll 9 ExampleSpatialRegistrations ?ws)) ?g))"
    using inst w0 by blast
  have wb: "map WReceivedCallback (Invoked (WBroadcastMessageInternal (\<lambda>k ch st s. s) (\<lambda>t. True) [''A'', ''B''] 7
        (Point 30 40) (snd (WRegisterAll 9 ExampleSpatialRegistrations ?ws)))) = [4, 2, 1, 3]"
    using inst WNeverInterrupts_id by blast
  have "\<forall>k. map WEntryRegistration (filter (\<lambda>x. WPriority x = k)
          (GridListenersOf (snd (WRegisterAll 9 ExampleSpatialRegistrations ?ws)) ?g)) =
        map WEntryRegistration (filter (\<lambda>x. WPriority x = k) (GridListenersOf (snd ?ws) ?g)) @
        filter (\<lambda>r. ?g \<in> set (RelevantGridsOf (sPosition r) (sRadius r)) \<and> sPriority r = k)
          ExampleSpatialRegistrations"
    using inst [THEN conjunct2, THEN conjunct2, THEN conjunct2, THEN conjunct2, THEN conjunct1] rng
    by (rule mp)
  then have "map WEntryRegistration (filter (\<lambda>x. WPriority x = 50)
          (GridListenersOf (snd (WRegisterAll 9 ExampleSpatialRegistrations ?ws)) ?g)) =
        map WEntryRegistration (filter (\<lambda>x. WPriority x = 50) (GridListenersOf (snd ?ws) ?g)) @
        filter (\<lambda>r. ?g \<in> set (RelevantGridsOf (sPosition r) (sRadius r)) \<and> sPriority r = 50)
          ExampleSpatialRegistrations"
    by (rule spec)
  then have we: "map sCallback (map WEntryRegistration (filter (\<lambda>x. WPriority x = 50)
          (GridListenersOf (snd (WRegisterAll 9 ExampleSpatialRegistrations ?ws)) ?g))) = [1, 3]"
    using Example_cell by (simp add: GridListenersOf_Initial ExampleSpatialRegistrations_def)
  show ?thesis
    using s0 c a d e NeverInterrupts_id b w0' pr InRange_examples(1) Example_cell wa we WNeverInterrupts_id wb
    by blast
qed

text \<open>
  C4. The loop of either router runs over the copy of the list taken before the first
  callback. Whatever the callbacks do to the router (register, unregister), the invoked
  entries are a prefix of the matching entries of that copy, in its order, and all of
  them when no callback interrupts: nothing is skipped and nothing is invoked twice.
\<close>

theorem C4_dispatch_iterates_snapshot:
  "prefix (Invoked (BroadcastMessageInternal cbs live ch st tgt s))
          (filter (Passes live ch st tgt) (ListenersOf s st)) \<and>
   (NeverInterrupts cbs \<longrightarrow>
      Invoked (BroadcastMessageInternal cbs live ch st tgt s) =
        filter (Passes live ch st tgt) (ListenersOf s st)) \<and>
   prefix (Invoked (WBroadcastMessageInternal wcbs live ch st Q ws))
          (filter (WPasses live ch st Q) (GridListenersOf ws (GetGridID Q))) \<and>
   (WNeverInterrupts wcbs \<longrightarrow>
      Invoked (WBroadcastMessageInternal wcbs live ch st Q ws) =
        filter (WPasses live ch st Q) (GridListenersOf ws (GetGridID Q)))"
  using Broadcast_prefix [of cbs live ch st tgt s] Broadcast_NeverInterrupts [of cbs live ch st tgt s]
    WBroadcast_prefix [of wcbs live ch st Q ws] WBroadcast_all [of wcbs live ch st Q ws]
  by blast

theorem C4_dispatch_iterates_snapshot_witness:
  "NeverInterrupts (OnlyCallback 1 (UnregisterListenerInternal 7 3)) \<and>
   map HandleID (ListenersOf (RegisterAll 9 ExampleThree InitialSubsystem) 7) = [1, 2, 3] \<and>
   map HandleID (Invoked (BroadcastMessageInternal (OnlyCallback 1 (UnregisterListenerInternal 7 3)) (\<lambda>t. True)
       [''A'', ''B''] 7 None (RegisterAll 9 ExampleThree InitialSubsystem))) = [1, 2, 3] \<and>
   map HandleID (ListenersOf (After (BroadcastMessageInternal (OnlyCallback 1 (UnregisterListenerInternal 7 3))
       (\<lambda>t. True) [''A'', ''B''] 7 None (RegisterAll 9 ExampleThree InitialSubsystem))) 7) = [1, 2] \<and>
   WNeverInterrupts (WOnlyCallback 4 (WUnregisterListenerInternal 7 3)) \<and>
   map WHandleID (GridListenersOf ExampleSpatialState (GetGridID (Point 30 40))) = [4, 2, 1, 3] \<and>
   map WHandleID (GridListenersOf (WUnregisterListenerInternal 7 3 ExampleSpatialState) (GetGridID (Point 30 40))) =
     [4, 2, 1] \<and>
   map WHandleID (Invoked (WBroadcastMessageInternal (WOnlyCallback 4 (WUnregisterListenerInternal 7 3))
       (\<lambda>t. True) [''A'', ''B''] 7 (Point 30 40) ExampleSpatialState)) = [4, 2, 1, 3]"
proof -
  note inst = C4_dispatch_iterates_snapshot [of "OnlyCallback 1 (UnregisterListenerInternal 7 3)" "\<lambda>t. True"
        "[''A'', ''B'']" 7 None "RegisterAll 9 ExampleThree InitialSubsystem"
        "WOnlyCallback 4 (WUnregisterListenerInternal 7 3)" "Point 30 40" ExampleSpatialState]
  have a: "Invoked (BroadcastMessageInternal (OnlyCallback 1 (UnregisterListenerInternal 7 3)) (\<lambda>t. True)
       [''A'', ''B''] 7 None (RegisterAll 9 ExampleThree InitialSubsystem)) =
       filter (Passes (\<lambda>t. True) [''A'', ''B''] 7 None) (ListenersOf (RegisterAll 9 ExampleThree InitialSubsystem) 7)"
    using inst NeverInterrupts_OnlyCallback_Unregister [of 1 7 3]
    by blast
  have b: "map HandleID (Invoked (BroadcastMessageInternal (OnlyCallback 1 (UnregisterListenerInternal 7 3)) (\<lambda>t. True)
       [''A'', ''B''] 7 None (RegisterAll 9 ExampleThree InitialSubsystem))) = [1, 2, 3]"
    unfolding a ExampleThree_Listeners by (simp add: ExampleEntry_Passes) (simp add: ExampleEntry_def)
  have c: "map HandleID (ListenersOf (RegisterAll 9 ExampleThree InitialSubsystem) 7) = [1, 2, 3]"
    unfolding ExampleThree_Listeners by (simp add: ExampleEntry_def)
  have d: "map HandleID (ListenersOf (After (BroadcastMessageInternal (OnlyCallback 1 (UnregisterListenerInternal 7 3))
       (\<lambda>t. True) [''A'', ''B''] 7 None (RegisterAll 9 ExampleThree InitialSubsystem))) 7) = [1, 2]"
    unfolding DispatchLoop_ExampleThree_Unregister by (simp add: ExampleEntry_def)
  have wa: "Invoked (WBroadcastMessageInternal (WOnlyCallback 4 (WUnregisterListenerInternal 7 3))
       (\<lambda>t. True) [''A'', ''B''] 7 (Point 30 40) ExampleSpatialState) =
       filter (WPasses (\<lambda>t. True) [''A'', ''B''] 7 (Point 30 40))
         (GridListenersOf ExampleSpatialState (GetGridID (Point 30 40)))"
    using inst WNeverInterrupts_WOnlyCallback_Unregister [of 4 7 3]
    by blast
  have wb: "map WHandleID (Invoked (WBroadcastMessageInternal (WOnlyCallback 4 (WUnregisterListenerInternal 7 3))
       (\<lambda>t. True) [''A'', ''B''] 7 (Point 30 40) ExampleSpatialState)) = [4, 2, 1, 3]"
    unfolding wa ExampleSpatialState_Listeners
    by (simp add: ExampleSpatialEntry_WPasses [where live = "\<lambda>t. True"]) (simp add: ExampleSpatialEntry_def)
  have wc: "map WHandleID (GridListenersOf ExampleSpatialState (GetGridID (Point 30 40))) = [4, 2, 1, 3]"
    unfolding ExampleSpatialState_Listeners by (simp add: ExampleSpatialEntry_def)
  show ?thesis
    using NeverInterrupts_OnlyCallback_Unregister [of 1 7 3] b c d
      WNeverInterrupts_WOnlyCallback_Unregister [of 4 7 3] wc ExampleSpatialState_Unregister(2) wb
    by blast
qed

text \<open>
  C8. In either router an invoked listener always satisfies its tag rule: with
  \<open>ExactMatch\<close> the broadcast channel is the listener's channel, with \<open>PartialMatch\<close> it is
  that channel or one of its descendants. Conversely a listener of the broadcast type that
  is live, accepts the target (global router) or is within its radius of the broadcast
  position and in the cell of that position (spatial router), and is not cut off by an
  interruption, is invoked exactly when its rule holds.
\<close>

theorem C8_tag_match_rule:
  "(\<forall>x\<in>set (Invoked (BroadcastMessageInternal cbs live ch st tgt s)).
      (MatchType x = ExactMatch \<and> ch = Channel x) \<or> (MatchType x = PartialMatch \<and> prefix (Channel x) ch)) \<and>
   (NeverInterrupts cbs \<and> e \<in> set (ListenersOf s st) \<and> live st \<and> ListenerStructType e = st \<and>
    (TargetObject e = None \<or> TargetObject e = tgt) \<longrightarrow>
      (MatchType e = ExactMatch \<longrightarrow>
         (e \<in> set (Invoked (BroadcastMessageInternal cbs live ch st tgt s)) \<longleftrightarrow> ch = Channel e)) \<and>
      (MatchType e = PartialMatch \<longrightarrow>
         (e \<in> set (Invoked (BroadcastMessageInternal cbs live ch st tgt s)) \<longleftrightarrow> prefix (Channel e) ch))) \<and>
   (\<forall>x\<in>set (Invoked (WBroadcastMessageInternal wcbs live ch st Q ws)).
      (WMatchType x = ExactMatch \<and> ch = WChannel x) \<or> (WMatchType x = PartialMatch \<and> prefix (WChannel x) ch)) \<and>
   (WNeverInterrupts wcbs \<and> we \<in> set (GridListenersOf ws (GetGridID Q)) \<and> live st \<and>
    WListenerStructType we = st \<and>
    DistSquared Q (ListenPosition we) \<le> ListenRadius we * ListenRadius we \<longrightarrow>
      (WMatchType we = ExactMatch \<longrightarrow>
         (we \<in> set (Invoked (WBroadcastMessageInternal wcbs live ch st Q ws)) \<longleftrightarrow> ch = WChannel we)) \<and>
      (WMatchType we = PartialMatch \<longrightarrow>
         (we \<in> set (Invoked (WBroadcastMessageInternal wcbs live ch st Q ws)) \<longleftrightarrow> prefix (WChannel we) ch)))"
proof (intro conjI ballI impI)
  fix x
  assume "x \<in> set (Invoked (BroadcastMessageInternal cbs live ch st tgt s))"
  then have "x \<in> set (filter (Passes live ch st tgt) (ListenersOf s st))"
    using Broadcast_prefix [of cbs live ch st tgt s] set_mono_prefix by blast
  then have "TagRule ch x"
    using Passes_TagRule [of live ch st tgt x] by simp
  then show "(MatchType x = ExactMatch \<and> ch = Channel x) \<or> (MatchType x = PartialMatch \<and> prefix (Channel x) ch)"
    by (cases "MatchType x") (simp_all add: TagRule_def)
next
  assume h: "NeverInterrupts cbs \<and> e \<in> set (ListenersOf s st) \<and> live st \<and> ListenerStructType e = st \<and>
    (TargetObject e = None \<or> TargetObject e = tgt)"
  then have inv: "e \<in> set (Invoked (BroadcastMessageInternal cbs live ch st tgt s)) \<longleftrightarrow> TagRule ch e"
    using Broadcast_NeverInterrupts [of cbs live ch st tgt s] TagRule_Passes [of live e st tgt ch] by auto
  {
    assume "MatchType e = ExactMatch"
    then show "e \<in> set (Invoked (BroadcastMessageInternal cbs live ch st tgt s)) \<longleftrightarrow> ch = Channel e"
      using inv by (simp add: TagRule_def)
  }
  {
    assume "MatchType e = PartialMatch"
    then show "e \<in> set (Invoked (BroadcastMessageInternal cbs live ch st tgt s)) \<longleftrightarrow> prefix (Channel e) ch"
      using inv by (simp add: TagRule_def)
  }
next
  fix x
  assume "x \<in> set (Invoked (WBroadcastMessageInternal wcbs live ch st Q ws))"
  then show "(WMatchType x = ExactMatch \<and> ch = WChannel x) \<or>
             (WMatchType x = PartialMatch \<and> prefix (WChannel x) ch)"
    by (rule WBroadcast_rule)
next
  assume h: "WNeverInterrupts wcbs \<and> we \<in> set (GridListenersOf ws (GetGridID Q)) \<and> live st \<and>
    WListenerStructType we = st \<and>
    DistSquared Q (ListenPosition we) \<le> ListenRadius we * ListenRadius we"
  have inv: "we \<in> set (Invoked (WBroadcastMessageInternal wcbs live ch st Q ws)) \<longleftrightarrow>
         (case WMatchType we of ExactMatch \<Rightarrow> ch = WChannel we | PartialMatch \<Rightarrow> prefix (WChannel we) ch)"
    using h by (intro WBroadcast_invoked_iff) simp_all
  {
    assume "WMatchType we = ExactMatch"
    then show "we \<in> set (Invoked (WBroadcastMessageInternal wcbs live ch st Q ws)) \<longleftrightarrow> ch = WChannel we"
      using inv by simp
  }
  {
    assume "WMatchType we = PartialMatch"
    then show "we \<in> set (Invoked (WBroadcastMessageInternal wcbs live ch st Q ws)) \<longleftrightarrow> prefix (WChannel we) ch"
      using inv by simp
  }
qed

theorem C8_tag_match_rule_witness:
  "ExampleListenerEntry ExactMatch \<in> set (Invoked (BroadcastMessageInternal (\<lambda>k ch st s. s) (\<lambda>t. True)
      [''A'', ''B''] 7 None (snd (Register 9 (ExampleListener ExactMatch) InitialSubsystem)))) \<and>
   ExampleListenerEntry ExactMatch \<notin> set (Invoked (BroadcastMessageInternal (\<lambda>k ch st s. s) (\<lambda>t. True)
      [''A'', ''B'', ''C''] 7 None (snd (Register 9 (ExampleListener ExactMatch) InitialSubsystem)))) \<and>
   ExampleListenerEntry PartialMatch \<in> set (Invoked (BroadcastMessageInternal (\<lambda>k ch st s. s) (\<lambda>t. True)
      [''A'', ''B''] 7 None (snd (Register 9 (ExampleListener PartialMatch) InitialSubsystem)))) \<and>
   ExampleListenerEntry PartialMatch \<in> set (Invoked (BroadcastMessageInternal (\<lambda>k ch st s. s) (\<lambda>t. True)
      [''A'', ''B'', ''C''] 7 None (snd (Register 9 (ExampleListener PartialMatch) InitialSubsystem)))) \<and>
   ExampleListenerEntry PartialMatch \<notin> set (Invoked (BroadcastMessageInternal (\<lambda>k ch st s. s) (\<lambda>t. True)
      [''A''] 7 None (snd (Register 9 (ExampleListener PartialMatch) InitialSubsystem)))) \<and>
   ExampleSpatialListenerEntry ExactMatch \<in> set (Invoked (WBroadcastMessageInternal (\<lambda>k ch st s. s) (\<lambda>t. True)
      [''A'', ''B''] 7 (Point 30 40) (snd (WRegister 9 (ExampleSpatialListener ExactMatch) (0, InitialWorldSubsystem))))) \<and>
   ExampleSpatialListenerEntry ExactMatch \<notin> set (Invoked (WBroadcastMessageInternal (\<lambda>k ch st s. s) (\<lambda>t. True)
      [''A'', ''B'', ''C''] 7 (Point 30 40)
      (snd (WRegister 9 (ExampleSpatialListener ExactMatch) (0, InitialWorldSubsystem))))) \<and>
   ExampleSpatialListenerEntry PartialMatch \<in> set (Invoked (WBroadcastMessageInternal (\<lambda>k ch st s. s) (\<lambda>t. True)
      [''A'', ''B''] 7 (Point 30 40)
      (snd (WRegister 9 (ExampleSpatialListener PartialMatch) (0, InitialWorldSubsystem))))) \<and>
   ExampleSpatialListenerEntry PartialMatch \<in> set (Invoked (WBroadcastMessageInternal (\<lambda>k ch st s. s) (\<lambda>t. True)
      [''A'', ''B'', ''C''] 7 (Point 30 40)
      (snd (WRegister 9 (ExampleSpatialListener PartialMatch) (0, InitialWorldSubsystem))))) \<and>
   ExampleSpatialListenerEntry PartialMatch \<notin> set (Invoked (WBroadcastMessageInternal (\<lambda>k ch st s. s) (\<lambda>t. True)
      [''A''] 7 (Point 30 40)
      (snd (WRegister 9 (ExampleSpatialListener PartialMatch) (0, InitialWorldSubsystem)))))"
proof -
  let ?ws = "\<lambda>m. snd (WRegister 9 (ExampleSpatialListener m) (0::int, InitialWorldSubsystem))"
  have pre: "NeverInterrupts (\<lambda>k ch st s. s) \<and>
      ExampleListenerEntry m \<in> set (ListenersOf (snd (Register 9 (ExampleListener m) InitialSubsystem)) 7) \<and>
      (\<lambda>t. True) (7::nat) \<and> ListenerStructType (ExampleListenerEntry m) = 7 \<and>
      (TargetObject (ExampleListenerEntry m) = None \<or> TargetObject (ExampleListenerEntry m) = None)" for m
    by (simp add: NeverInterrupts_id ExampleListener_Listeners) (simp add: ExampleListenerEntry_def)
  have wpre: "WNeverInterrupts (\<lambda>k ch st s. s) \<and>
      ExampleSpatialListenerEntry m \<in> set (GridListenersOf (?ws m) (GetGridID (Point 30 40))) \<and>
      (\<lambda>t. True) (7::nat) \<and> WListenerStructType (ExampleSpatialListenerEntry m) = 7 \<and>
      DistSquared (Point 30 40) (ListenPosition (ExampleSpatialListenerEntry m)) \<le>
        ListenRadius (ExampleSpatialListenerEntry m) * ListenRadius (ExampleSpatialListenerEntry m)" for m
    by (simp add: WNeverInterrupts_id ExampleSpatialListener_Listeners)
       (simp add: ExampleSpatialListenerEntry_def DistSquared_def Point_def)
  have ex: "ExampleListenerEntry ExactMatch \<in> set (Invoked (BroadcastMessageInternal (\<lambda>k ch st s. s) (\<lambda>t. True)
      ch 7 None (snd (Register 9 (ExampleListener ExactMatch) InitialSubsystem)))) \<longleftrightarrow> ch = [''A'', ''B'']" for ch
    using C8_tag_match_rule [of "\<lambda>k ch st s. s" "\<lambda>t. True" ch 7 None
        "snd (Register 9 (ExampleListener ExactMatch) InitialSubsystem)" "ExampleListenerEntry ExactMatch"]
      pre [of ExactMatch]
    by (simp add: ExampleListenerEntry_def)
  have pa: "ExampleListenerEntry PartialMatch \<in> set (Invoked (BroadcastMessageInternal (\<lambda>k ch st s. s) (\<lambda>t. True)
      ch 7 None (snd (Register 9 (ExampleListener PartialMatch) InitialSubsystem)))) \<longleftrightarrow> prefix [''A'', ''B''] ch" for ch
    using C8_tag_match_rule [of "\<lambda>k ch st s. s" "\<lambda>t. True" ch 7 None
        "snd (Register 9 (ExampleListener PartialMatch) InitialSubsystem)" "ExampleListenerEntry PartialMatch"]
      pre [of PartialMatch]
    by (simp add: ExampleListenerEntry_def)
  have wex: "ExampleSpatialListenerEntry ExactMatch \<in> set (Invoked (WBroadcastMessageInternal (\<lambda>k ch st s. s)
      (\<lambda>t. True) ch 7 (Point 30 40) (?ws ExactMatch))) \<longleftrightarrow> ch = [''A'', ''B'']" for ch
    using C8_tag_match_rule [where wcbs = "\<lambda>k ch st s. s" and live = "\<lambda>t. True" and ch = ch and st = 7
        and Q = "Point 30 40" and ws = "?ws ExactMatch" and we = "ExampleSpatialListenerEntry ExactMatch",
        THEN conjunct2, THEN conjunct2, THEN conjunct2, THEN mp, OF wpre [of ExactMatch]]
    by (simp add: ExampleSpatialListenerEntry_def)
  have wpa: "ExampleSpatialListenerEntry PartialMatch \<in> set (Invoked (WBroadcastMessageInternal (\<lambda>k ch st s. s)
      (\<lambda>t. True) ch 7 (Point 30 40) (?ws PartialMatch))) \<longleftrightarrow> prefix [''A'', ''B''] ch" for ch
    using C8_tag_match_rule [where wcbs = "\<lambda>k ch st s. s" and live = "\<lambda>t. True" and ch = ch and st = 7
        and Q = "Point 30 40" and ws = "?ws PartialMatch" and we = "ExampleSpatialListenerEntry PartialMatch",
        THEN conjunct2, THEN conjunct2, THEN conjunct2, THEN mp, OF wpre [of PartialMatch]]
    by (simp add: ExampleSpatialListenerEntry_def)
  show ?thesis
    unfolding ex pa wex wpa by simp
qed

text \<open>
  C10. \<open>Unregister()\<close> on a handle of either router never aborts, and calling it again on
  the handle it leaves behind changes nothing. A default-constructed handle is invalid.
  For a valid handle of a live global router whose list has pairwise distinct ids (as
  every reachable list has), the call resets the handle to the invalid one, replaces
  the router by the one without the entries of that id, and no broadcast on that router
  invokes an entry with the handle's type and id. For a valid handle of a live spatial
  router that has the listener on record, with the entries of that id in the cells
  recorded for it, the call resets the handle, removes the entries of that id from every
  cell and the record of the listener, and no broadcast on that router invokes an entry
  of that id.
\<close>

theorem C10_unregister_idempotent:
  "(\<exists>routers' h'. Handle_Unregister chk routers h = Inr (routers', h') \<and>
      Handle_Unregister chk routers' h' = Inr (routers', h')) \<and>
   \<not> Handle_IsValid (DefaultHandle st0) \<and>
   (Handle_IsValid h \<and> Subsystem h = Some a \<and> routers a = Some s \<and>
    distinct (map HandleID (ListenersOf s (StructType h))) \<longrightarrow>
      Handle_Unregister chk routers h =
        Inr (routers(a \<mapsto> UnregisterListenerInternal (StructType h) (ID h) s), ResetHandle h) \<and>
      \<not> Handle_IsValid (ResetHandle h) \<and>
      set (ListenersOf (UnregisterListenerInternal (StructType h) (ID h) s) (StructType h)) =
        {x \<in> set (ListenersOf s (StructType h)). HandleID x \<noteq> ID h} \<and>
      (\<forall>x\<in>set (Invoked (BroadcastMessageInternal cbs live ch st tgt
                 (UnregisterListenerInternal (StructType h) (ID h) s))).
         \<not> (ListenerStructType x = StructType h \<and> HandleID x = ID h))) \<and>
   (\<exists>wrouters' h'. WHandle_Unregister chk wrouters h = Inr (wrouters', h') \<and>
      WHandle_Unregister chk wrouters' h' = Inr (wrouters', h')) \<and>
   (Handle_IsValid h \<and> Subsystem h = Some a \<and> wrouters a = Some ws \<and>
    HandleToSpatialMap ws (ID h) = Some info \<and>
    (\<forall>g. g \<notin> set (RelevantGridsOf (InfoListenPosition info) (InfoListenRadius info)) \<longrightarrow>
         CellEntries (GridListenerMap ws) g (ID h) = []) \<longrightarrow>
      WHandle_Unregister chk wrouters h =
        Inr (wrouters(a \<mapsto> WUnregisterListenerInternal (StructType h) (ID h) ws), ResetHandle h) \<and>
      (\<forall>g. GridListenersOf (WUnregisterListenerInternal (StructType h) (ID h) ws) g =
            filter (\<lambda>Listener. WHandleID Listener \<noteq> ID h) (GridListenersOf ws g)) \<and>
      HandleToSpatialMap (WUnregisterListenerInternal (StructType h) (ID h) ws) (ID h) = None \<and>
      (\<forall>x\<in>set (Invoked (WBroadcastMessageInternal wcbs live ch st Q
                 (WUnregisterListenerInternal (StructType h) (ID h) ws))).
         WHandleID x \<noteq> ID h))"
proof (intro conjI impI)
  show "\<exists>routers' h'. Handle_Unregister chk routers h = Inr (routers', h') \<and>
      Handle_Unregister chk routers' h' = Inr (routers', h')"
    by (rule Handle_Unregister_twice)
next
  show "\<not> Handle_IsValid (DefaultHandle st0)"
    by (simp add: Handle_IsValid_def DefaultHandle_def)
next
  assume h: "Handle_IsValid h \<and> Subsystem h = Some a \<and> routers a = Some s \<and>
    distinct (map HandleID (ListenersOf s (StructType h)))"
  let ?s' = "UnregisterListenerInternal (StructType h) (ID h) s"
  show "Handle_Unregister chk routers h = Inr (routers(a \<mapsto> ?s'), ResetHandle h)"
    using h by (simp add: Handle_Unregister_cases)
  show "\<not> Handle_IsValid (ResetHandle h)"
    by (simp add: Handle_IsValid_def ResetHandle_def)
  show gone: "set (ListenersOf ?s' (StructType h)) = {x \<in> set (ListenersOf s (StructType h)). HandleID x \<noteq> ID h}"
    using h by (simp add: ListenersOf_Unregister_distinct)
  show "\<forall>x\<in>set (Invoked (BroadcastMessageInternal cbs live ch st tgt ?s')).
         \<not> (ListenerStructType x = StructType h \<and> HandleID x = ID h)"
    using gone by (rule Broadcast_not_removed)
next
  show "\<exists>wrouters' h'. WHandle_Unregister chk wrouters h = Inr (wrouters', h') \<and>
      WHandle_Unregister chk wrouters' h' = Inr (wrouters', h')"
    by (rule WHandle_Unregister_twice)
next
  assume h: "Handle_IsValid h \<and> Subsystem h = Some a \<and> wrouters a = Some ws \<and>
    HandleToSpatialMap ws (ID h) = Some info \<and>
    (\<forall>g. g \<notin> set (RelevantGridsOf (InfoListenPosition info) (InfoListenRadius info)) \<longrightarrow>
         CellEntries (GridListenerMap ws) g (ID h) = [])"
  let ?s' = "WUnregisterListenerInternal (StructType h) (ID h) ws"
  have info: "HandleToSpatialMap ws (ID h) = Some info"
    and cells: "\<forall>g. g \<notin> set (RelevantGridsOf (InfoListenPosition info) (InfoListenRadius info)) \<longrightarrow>
         CellEntries (GridListenerMap ws) g (ID h) = []"
    using h by blast+
  show "WHandle_Unregister chk wrouters h = Inr (wrouters(a \<mapsto> ?s'), ResetHandle h)"
    using h by (simp add: WHandle_Unregister_cases)
  show gone: "\<forall>g. GridListenersOf ?s' g = filter (\<lambda>Listener. WHandleID Listener \<noteq> ID h) (GridListenersOf ws g)"
    using WUnregister_removes [OF info cells] by blast
  show "HandleToSpatialMap ?s' (ID h) = None"
    using info by (rule WUnregister_info)
  show "\<forall>x\<in>set (Invoked (WBroadcastMessageInternal wcbs live ch st Q ?s')). WHandleID x \<noteq> ID h"
    using gone by (rule WBroadcast_not_removed)
qed

theorem C10_unregister_idempotent_witness:
  "Handle_IsValid \<lparr>Subsystem = Some 9, StructType = 7, ID = 2\<rparr> \<and>
   distinct (map HandleID (ListenersOf (RegisterAll 9 ExampleThree InitialSubsystem) 7)) \<and>
   Handle_Unregister True [9 \<mapsto> RegisterAll 9 ExampleThree InitialSubsystem]
       \<lparr>Subsystem = Some 9, StructType = 7, ID = 2\<rparr> =
     Inr ([9 \<mapsto> UnregisterListenerInternal 7 2 (RegisterAll 9 ExampleThree InitialSubsystem)],
          \<lparr>Subsystem = None, StructType = 0, ID = 0\<rparr>) \<and>
   map HandleID (ListenersOf (UnregisterListenerInternal 7 2 (RegisterAll 9 ExampleThree InitialSubsystem)) 7) = [1, 3] \<and>
   2 \<notin> HandleID ` set (Invoked (BroadcastMessageInternal (\<lambda>k ch st s. s) (\<lambda>t. True) [''A'', ''B''] 7 None
       (UnregisterListenerInternal 7 2 (RegisterAll 9 ExampleThree InitialSubsystem)))) \<and>
   HandleToSpatialMap ExampleSpatialState 2 = Some \<lparr>InfoListenPosition = Point 0 0, InfoListenRadius = 100\<rparr> \<and>
   map WHandleID (GridListenersOf ExampleSpatialState (GetGridID (Point 30 40))) = [4, 2, 1, 3] \<and>
   WHandle_Unregister True [9 \<mapsto> ExampleSpatialState] \<lparr>Subsystem = Some 9, StructType = 7, ID = 2\<rparr> =
     Inr ([9 \<mapsto> WUnregisterListenerInternal 7 2 ExampleSpatialState],
          \<lparr>Subsystem = None, StructType = 0, ID = 0\<rparr>) \<and>
   map WHandleID (GridListenersOf (WUnregisterListenerInternal 7 2 ExampleSpatialState) (GetGridID (Point 30 40))) =
     [4, 1, 3] \<and>
   HandleToSpatialMap (WUnregisterListenerInternal 7 2 ExampleSpatialState) 2 = None \<and>
   2 \<notin> WHandleID ` set (Invoked (WBroadcastMessageInternal (\<lambda>k ch st s. s) (\<lambda>t. True) [''A'', ''B''] 7
       (Point 30 40) (WUnregisterListenerInternal 7 2 ExampleSpatialState)))"
proof -
  let ?h = "\<lparr>Subsystem = Some 9, StructType = 7, ID = 2\<rparr>"
  let ?s = "RegisterAll 9 ExampleThree InitialSubsystem"
  let ?info = "\<lparr>InfoListenPosition = Point 0 0, InfoListenRadius = 100\<rparr>"
  have v: "Handle_IsValid ?h" by (simp add: Handle_IsValid_def)
  have d: "distinct (map HandleID (ListenersOf ?s 7))"
    unfolding ExampleThree_Listeners by (simp add: ExampleEntry_def)
  have pre: "Handle_IsValid ?h \<and> Subsystem ?h = Some 9 \<and> [9 \<mapsto> ?s] 9 = Some ?s \<and>
    distinct (map HandleID (ListenersOf ?s (StructType ?h)))"
    using v d by simp
  have cells: "\<forall>g. g \<notin> set (RelevantGridsOf (InfoListenPosition ?info) (InfoListenRadius ?info)) \<longrightarrow>
         CellEntries (GridListenerMap ExampleSpatialState) g (ID ?h) = []"
    using ExampleSpatialState_elsewhere by (simp add: CellEntries_def GridListenersOf_def)
  have wpre: "Handle_IsValid ?h \<and> Subsystem ?h = Some 9 \<and> [9 \<mapsto> ExampleSpatialState] 9 = Some ExampleSpatialState \<and>
    HandleToSpatialMap ExampleSpatialState (ID ?h) = Some ?info \<and>
    (\<forall>g. g \<notin> set (RelevantGridsOf (InfoListenPosition ?info) (InfoListenRadius ?info)) \<longrightarrow>
         CellEntries (GridListenerMap ExampleSpatialState) g (ID ?h) = [])"
    using v cells ExampleSpatialState_info(1) by simp
  note inst = C10_unregister_idempotent [where chk = True and routers = "[9 \<mapsto> ?s]" and h = ?h and ?st0.0 = 0
      and a = 9 and s = ?s and cbs = "\<lambda>k ch st s. s" and live = "\<lambda>t. True" and ch = "[''A'', ''B'']" and st = 7
      and tgt = None and wrouters = "[9 \<mapsto> ExampleSpatialState]" and ws = ExampleSpatialState
      and info = ?info and wcbs = "\<lambda>k ch st s. s" and Q = "Point 30 40"]
  note g = inst [THEN conjunct2, THEN conjunct2, THEN conjunct1, THEN mp, OF pre]
  note w = inst [THEN conjunct2, THEN conjunct2, THEN conjunct2, THEN conjunct2, THEN mp, OF wpre]
  have a: "Handle_Unregister True [9 \<mapsto> ?s] ?h =
        Inr ([9 \<mapsto> ?s](9 \<mapsto> UnregisterListenerInternal (StructType ?h) (ID ?h) ?s), ResetHandle ?h)"
    using g by (rule conjunct1)
  have b: "\<forall>x\<in>set (Invoked (BroadcastMessageInternal (\<lambda>k ch st s. s) (\<lambda>t. True) [''A'', ''B''] 7 None
                 (UnregisterListenerInternal (StructType ?h) (ID ?h) ?s))).
         \<not> (ListenerStructType x = StructType ?h \<and> HandleID x = ID ?h)"
    using g by blast
  have l: "ListenersOf (UnregisterListenerInternal 7 2 ?s) 7 = [ExampleEntry 1 1 0, ExampleEntry 3 3 50]"
    by (simp add: ListenersOf_Unregister ExampleThree_Listeners ExampleEntry_def RemoveAtSwap_def)
  have t: "\<forall>x\<in>set (Invoked (BroadcastMessageInternal (\<lambda>k ch st s. s) (\<lambda>t. True) [''A'', ''B''] 7 None
                 (UnregisterListenerInternal 7 2 ?s))). ListenerStructType x = 7"
    unfolding Broadcast_NeverInterrupts [OF NeverInterrupts_id] by (simp add: Passes_def)
  have c: "2 \<notin> HandleID ` set (Invoked (BroadcastMessageInternal (\<lambda>k ch st s. s) (\<lambda>t. True) [''A'', ''B''] 7 None
       (UnregisterListenerInternal 7 2 ?s)))"
    using b t by force
  have a': "Handle_Unregister True [9 \<mapsto> ?s] ?h =
     Inr ([9 \<mapsto> UnregisterListenerInternal 7 2 ?s], \<lparr>Subsystem = None, StructType = 0, ID = 0\<rparr>)"
    using a by (simp add: ResetHandle_def)
  have l': "map HandleID (ListenersOf (UnregisterListenerInternal 7 2 ?s) 7) = [1, 3]"
    unfolding l by (simp add: ExampleEntry_def)
  have wa: "WHandle_Unregister True [9 \<mapsto> ExampleSpatialState] ?h =
     Inr ([9 \<mapsto> WUnregisterListenerInternal 7 2 ExampleSpatialState],
          \<lparr>Subsystem = None, StructType = 0, ID = 0\<rparr>)"
    using w [THEN conjunct1] by (simp add: ResetHandle_def)
  have wn: "HandleToSpatialMap (WUnregisterListenerInternal 7 2 ExampleSpatialState) 2 = None"
    using w [THEN conjunct2, THEN conjunct2, THEN conjunct1] by simp
  have wb: "\<forall>x\<in>set (Invoked (WBroadcastMessageInternal (\<lambda>k ch st s. s) (\<lambda>t. True) [''A'', ''B''] 7 (Point 30 40)
                 (WUnregisterListenerInternal 7 2 ExampleSpatialState))). WHandleID x \<noteq> 2"
    using w [THEN conjunct2, THEN conjunct2, THEN conjunct2] by simp
  have wc: "2 \<notin> WHandleID ` set (Invoked (WBroadcastMessageInternal (\<lambda>k ch st s. s) (\<lambda>t. True) [''A'', ''B''] 7
       (Point 30 40) (WUnregisterListenerInternal 7 2 ExampleSpatialState)))"
    using wb by force
  have wl: "map WHandleID (GridListenersOf ExampleSpatialState (GetGridID (Point 30 40))) = [4, 2, 1, 3]"
    unfolding ExampleSpatialState_Listeners by (simp add: ExampleSpatialEntry_def)
  show ?thesis
    using v d a' l' c ExampleSpatialState_info(1) wl wa ExampleSpatialState_Unregister(1) wn wc by blast
qed

end
